theory Spec2Isabelle
  imports Main "HOL-Library.Word" "HOL-Library.AList"
begin

unbundle bit_operations_syntax

section \<open>Values of the worker process\<close>

text \<open>
  The embedding follows \<^verbatim>\<open>pyServer.py\<close> as it runs under a Python 3 interpreter
  (\<^verbatim>\<open>_global_python3 is True\<close>); the branches for Python 2 are not modelled.

  A Python \<^verbatim>\<open>str\<close> is a sequence of Unicode code points, so \<^verbatim>\<open>len\<close> of
  a \<^verbatim>\<open>str\<close> counts code points; a \<^verbatim>\<open>bytes\<close> value is a sequence of octets.
\<close>

type_synonym byte = "8 word"
type_synonym pystr = "nat list"

definition py :: "string \<Rightarrow> pystr" where
  "py s = map of_char s"

datatype error =
    StructError
  | UnicodeEncodeError
  | UnicodeDecodeError
  | BinasciiError
  | TypeError
  | KeyError
  | AttributeError
  | ValueError
  | SystemExit
  | TransportStalled
  | OutsideModel

text \<open>
  The last two are not Python exceptions. \<open>TransportStalled\<close> stands for a
  \<^verbatim>\<open>recv\<close> that never delivers another byte, that is, for a receive loop that does
  not return. \<open>OutsideModel\<close> marks a step whose Python behaviour the value fragment
  below cannot express (a dictionary key that is not a text, a raw payload that is not a
  text, a message that is not a dictionary).
\<close>

subsection \<open>Tabular values\<close>

text \<open>
  What \<^verbatim>\<open>instances_to_header_message\<close> reads of a pandas DataFrame: the length of
  its index and, for every column in order, its label, its dtype and its values. A value
  of an \<^verbatim>\<open>object\<close> or \<^verbatim>\<open>bool\<close> column is a text, a boolean or the missing-value
  marker NaN (what \<^verbatim>\<open>pd.read_csv\<close> stores for the token \<^verbatim>\<open>?\<close>). Column labels are
  looked up by name, first match.
\<close>

datatype dtype = Dtype_object | Dtype_bool | Dtype_datetime | Dtype_other

datatype cell = CStr pystr | CBool bool | CNaN

record column =
  col_name :: pystr
  col_dtype :: dtype
  col_values :: "cell list"

record dataframe =
  index_size :: nat
  columns :: "column list"

subsection \<open>Python objects\<close>

text \<open>
  The fragment of Python objects that messages, responses and the Environment hold:
  \<^verbatim>\<open>None\<close>, booleans, integers, the float NaN, texts, lists, dictionaries with text
  keys in insertion order, DataFrames, and instances of a subclass of
  \<^verbatim>\<open>pd.DataFrame\<close> that inherits its attributes: such an object has an index,
  dtypes and \<^verbatim>\<open>to_csv\<close>, but its type is not \<^verbatim>\<open>pd.DataFrame\<close>.
\<close>

datatype pyval =
    PNone
  | PBool bool
  | PInt int
  | PNaN
  | PStr pystr
  | PList "pyval list"
  | PDict "(pystr \<times> pyval) list"
  | PFrame dataframe
  | PFrameSubclass dataframe

type_synonym pydict = "(pystr \<times> pyval) list"
type_synonym env = "pystr \<rightharpoonup> pyval"

text \<open>
  What \<^verbatim>\<open>json.loads\<close> returns: a decoded document holds no DataFrame. A message is
  a document with keys and values (floating-point numbers are outside the fragment).
\<close>

datatype json =
    JNull
  | JBool bool
  | JInt int
  | JStr pystr
  | JList "json list"
  | JDict "(pystr \<times> json) list"

type_synonym message = "(pystr \<times> json) list"

text \<open>A decoded value as the Python object it is.\<close>

fun of_json :: "json \<Rightarrow> pyval" where
  "of_json JNull = PNone"
| "of_json (JBool b) = PBool b"
| "of_json (JInt i) = PInt i"
| "of_json (JStr t) = PStr t"
| "of_json (JList l) = PList (map of_json l)"
| "of_json (JDict d) = PDict (map (\<lambda>kv. (fst kv, of_json (snd kv))) d)"

section \<open>Text encoding and the length prefix\<close>

text \<open>\<^verbatim>\<open>str.encode('utf-8')\<close>: a surrogate code point raises UnicodeEncodeError.\<close>

definition encode_code_point :: "nat \<Rightarrow> byte list option" where
  "encode_code_point c =
     (if c < 0x80 then Some [of_nat c]
      else if c < 0x800 then
        Some [of_nat (0xC0 + c div 64), of_nat (0x80 + c mod 64)]
      else if c < 0x10000 then
        (if 0xD800 \<le> c \<and> c < 0xE000 then None
         else Some [of_nat (0xE0 + c div 4096), of_nat (0x80 + c div 64 mod 64),
                    of_nat (0x80 + c mod 64)])
      else if c < 0x110000 then
        Some [of_nat (0xF0 + c div 262144), of_nat (0x80 + c div 4096 mod 64),
              of_nat (0x80 + c div 64 mod 64), of_nat (0x80 + c mod 64)]
      else None)"

fun str_encode :: "pystr \<Rightarrow> error + byte list" where
  "str_encode [] = Inr []"
| "str_encode (c # cs) =
     (case encode_code_point c of
        None \<Rightarrow> Inl UnicodeEncodeError
      | Some bs \<Rightarrow>
          (case str_encode cs of Inl e \<Rightarrow> Inl e | Inr rest \<Rightarrow> Inr (bs @ rest)))"

text \<open>
  \<^verbatim>\<open>bytes.decode('utf-8')\<close>, strict: a truncated sequence, a stray continuation
  byte, an overlong form, a surrogate or a value above U+10FFFF raises UnicodeDecodeError.
\<close>

definition continuation :: "byte \<Rightarrow> bool" where
  "continuation b = (0x80 \<le> unat b \<and> unat b < 0xC0)"

definition payload_bits :: "byte \<Rightarrow> nat" where
  "payload_bits b = unat b - 0x80"

definition prepend :: "nat \<Rightarrow> error + pystr \<Rightarrow> error + pystr" where
  "prepend c r = (case r of Inl e \<Rightarrow> Inl e | Inr cs \<Rightarrow> Inr (c # cs))"

fun bytes_decode :: "byte list \<Rightarrow> error + pystr" where
  "bytes_decode [] = Inr []"
| "bytes_decode (b # bs) =
     (if unat b < 0x80 then prepend (unat b) (bytes_decode bs)
      else if 0xC2 \<le> unat b \<and> unat b < 0xE0 then
        (case bs of
           b1 # r \<Rightarrow>
             if continuation b1
             then prepend ((unat b - 0xC0) * 64 + payload_bits b1) (bytes_decode r)
             else Inl UnicodeDecodeError
         | _ \<Rightarrow> Inl UnicodeDecodeError)
      else if 0xE0 \<le> unat b \<and> unat b < 0xF0 then
        (case bs of
           b1 # b2 # r \<Rightarrow>
             (let c = (unat b - 0xE0) * 4096 + payload_bits b1 * 64 + payload_bits b2 in
              if continuation b1 \<and> continuation b2 \<and> 0x800 \<le> c
                 \<and> \<not> (0xD800 \<le> c \<and> c < 0xE000)
              then prepend c (bytes_decode r)
              else Inl UnicodeDecodeError)
         | _ \<Rightarrow> Inl UnicodeDecodeError)
      else if 0xF0 \<le> unat b \<and> unat b < 0xF5 then
        (case bs of
           b1 # b2 # b3 # r \<Rightarrow>
             (let c = (unat b - 0xF0) * 262144 + payload_bits b1 * 4096
                      + payload_bits b2 * 64 + payload_bits b3 in
              if continuation b1 \<and> continuation b2 \<and> continuation b3
                 \<and> 0x10000 \<le> c \<and> c < 0x110000
              then prepend c (bytes_decode r)
              else Inl UnicodeDecodeError)
         | _ \<Rightarrow> Inl UnicodeDecodeError)
      else Inl UnicodeDecodeError)"

text \<open>
  \<^verbatim>\<open>struct.pack('>L', n)\<close>: four octets, most significant first; a value that does
  not fit 32 bits raises \<^verbatim>\<open>struct.error\<close>. \<^verbatim>\<open>struct.unpack('>L', b)\<close> raises
  unless \<open>b\<close> has exactly four octets.
\<close>

definition struct_pack_L :: "nat \<Rightarrow> error + byte list" where
  "struct_pack_L n =
     (if n < 2 ^ 32
      then Inr [of_nat (n div 2 ^ 24), of_nat (n div 2 ^ 16), of_nat (n div 2 ^ 8), of_nat n]
      else Inl StructError)"

definition struct_unpack_L :: "byte list \<Rightarrow> error + nat" where
  "struct_unpack_L bs =
     (case bs of
        [b3, b2, b1, b0] \<Rightarrow>
          Inr (unat b3 * 2 ^ 24 + unat b2 * 2 ^ 16 + unat b1 * 2 ^ 8 + unat b0)
      | _ \<Rightarrow> Inl StructError)"

section \<open>The state of the worker and its external collaborators\<close>

text \<open>
  The module's globals and the socket. \<open>local_env\<close> is \<^verbatim>\<open>_local_env\<close> (the
  Environment). The \<^verbatim>\<open>StringIO\<close> objects live in a store: \<open>buffers\<close> gives the
  contents of the object at an address, \<open>allocated\<close> is the next free address, and
  \<open>sys_stdout\<close> and \<open>sys_stderr\<close> are the addresses of the objects installed as
  \<^verbatim>\<open>sys.stdout\<close> and \<^verbatim>\<open>sys.stderr\<close>. \<open>sent\<close> is every octet given to
  \<^verbatim>\<open>sendall\<close> so far, and \<open>inbox\<close> is what the transport will deliver: one list
  per arrival, in order.
\<close>

record server =
  global_startup_debug :: bool
  global_env :: env
  local_env :: env
  buffers :: "nat \<Rightarrow> pystr"
  allocated :: nat
  sys_stdout :: nat
  sys_stderr :: nat
  sent :: "byte list"
  inbox :: "byte list list"
  connection_closed :: bool

text \<open>
  How a script run by \<^verbatim>\<open>exec\<close> ends: it returns, it raises an exception of class
  \<^verbatim>\<open>Exception\<close> (the argument is what \<^verbatim>\<open>traceback.print_exc\<close> prints after its
  first line), or it raises \<^verbatim>\<open>SystemExit\<close> or another exception outside that class.
\<close>

datatype script_end = Completed | RaisedException pystr | RaisedSystemExit

record exec_outcome =
  globals_after :: env
  locals_after :: env
  printed_out :: pystr
  printed_err :: pystr
  ending :: script_end

text \<open>
  The library calls whose results the worker only passes on: the structured-document
  codec, the object codec, the script executor and the table reader and writer. They
  are parameters of the model.
\<close>

record externals =
  json_dumps :: "pyval \<Rightarrow> error + pystr"
  json_loads :: "pystr \<Rightarrow> error + message"
  pickle_dumps :: "pyval \<Rightarrow> error + byte list"
  pickle_loads :: "byte list \<Rightarrow> error + pyval"
  exec_script :: "json \<Rightarrow> env \<Rightarrow> env \<Rightarrow> exec_outcome"
  read_csv :: "pystr \<Rightarrow> error + dataframe"
  to_csv :: "dataframe \<Rightarrow> pystr"
  frame_info :: "dataframe \<Rightarrow> pystr"
  str_of :: "pyval \<Rightarrow> pystr"
  getpid :: int

subsection \<open>Actions: state passing with exceptions\<close>

type_synonym 'a action = "server \<Rightarrow> (error + 'a) \<times> server"

definition return :: "'a \<Rightarrow> 'a action" where
  "return x s = (Inr x, s)"

definition raise :: "error \<Rightarrow> 'a action" where
  "raise e s = (Inl e, s)"

definition bind :: "'a action \<Rightarrow> ('a \<Rightarrow> 'b action) \<Rightarrow> 'b action" where
  "bind m f s = (case m s of (Inl e, s') \<Rightarrow> (Inl e, s') | (Inr x, s') \<Rightarrow> f x s')"

definition lift :: "error + 'a \<Rightarrow> 'a action" where
  "lift r = (case r of Inl e \<Rightarrow> raise e | Inr x \<Rightarrow> return x)"

subsection \<open>Capture buffers\<close>

text \<open>\<^verbatim>\<open>StringIO()\<close>: a new, empty buffer.\<close>

definition StringIO :: "nat action" where
  "StringIO s =
     (Inr (allocated s),
      s\<lparr>buffers := (buffers s)(allocated s := []), allocated := Suc (allocated s)\<rparr>)"

definition write_to :: "nat \<Rightarrow> pystr \<Rightarrow> unit action" where
  "write_to buffer text s = (Inr (), s\<lparr>buffers := (buffers s)(buffer := buffers s buffer @ text)\<rparr>)"

definition getvalue :: "nat \<Rightarrow> pystr action" where
  "getvalue buffer s = (Inr (buffers s buffer), s)"

text \<open>\<^verbatim>\<open>close()\<close> discards the contents; the worker never uses a closed buffer again.\<close>

definition close :: "nat \<Rightarrow> unit action" where
  "close buffer s = (Inr (), s\<lparr>buffers := (buffers s)(buffer := [])\<rparr>)"

definition get_stdout :: "nat action" where
  "get_stdout s = (Inr (sys_stdout s), s)"

definition get_stderr :: "nat action" where
  "get_stderr s = (Inr (sys_stderr s), s)"

definition set_stdout :: "nat \<Rightarrow> unit action" where
  "set_stdout buffer s = (Inr (), s\<lparr>sys_stdout := buffer\<rparr>)"

definition set_stderr :: "nat \<Rightarrow> unit action" where
  "set_stderr buffer s = (Inr (), s\<lparr>sys_stderr := buffer\<rparr>)"

text \<open>\<^verbatim>\<open>print(text)\<close> writes the text and a newline to the installed \<^verbatim>\<open>sys.stdout\<close>.\<close>

definition print :: "pystr \<Rightarrow> unit action" where
  "print text s = write_to (sys_stdout s) (text @ py ''\<newline>'') s"

text \<open>
  \<^verbatim>\<open>exec(script, _global_env, _local_env)\<close>: the script's effects on the two
  environments persist, what it prints goes to the objects installed as
  \<^verbatim>\<open>sys.stdout\<close> and \<^verbatim>\<open>sys.stderr\<close> at that moment, and the result says how it
  ended.
\<close>

definition exec :: "externals \<Rightarrow> json \<Rightarrow> script_end action" where
  "exec X script s =
     (let run = exec_script X script (global_env s) (local_env s) in
      bind (write_to (sys_stdout s) (printed_out run)) (\<lambda>_.
      bind (write_to (sys_stderr s) (printed_err run)) (\<lambda>_.
      return (ending run)))
        (s\<lparr>global_env := globals_after run, local_env := locals_after run\<rparr>))"

section \<open>Framing layer\<close>

definition sendall :: "byte list \<Rightarrow> unit action" where
  "sendall bs s = (Inr (), s\<lparr>sent := sent s @ bs\<rparr>)"

text \<open>
  \<^verbatim>\<open>_global_connection.recv(n)\<close>: at most \<open>n\<close> octets of the oldest arrival; what is
  left of it stays for the next call.
\<close>

definition recv :: "nat \<Rightarrow> byte list action" where
  "recv n s =
     (case inbox s of
        [] \<Rightarrow> (Inl TransportStalled, s)
      | c # cs \<Rightarrow>
          (Inr (take n c), s\<lparr>inbox := (if length c \<le> n then cs else drop n c # cs)\<rparr>))"

text \<open>
  \<^verbatim>\<open>send_response(response, isJson)\<close>. The raw payloads the worker sends are texts
  (\<^verbatim>\<open>s.getvalue()\<close>).
\<close>

definition send_response :: "externals \<Rightarrow> pyval \<Rightarrow> bool \<Rightarrow> unit action" where
  "send_response X response isJson =
     bind (if isJson then lift (json_dumps X response)
           else (case response of PStr text \<Rightarrow> return text | _ \<Rightarrow> raise OutsideModel))
       (\<lambda>response.
          bind (lift (struct_pack_L (length response))) (\<lambda>prefix.
          bind (sendall prefix) (\<lambda>_.
          bind (lift (str_encode response)) (\<lambda>encoded.
          sendall encoded))))"

definition pending :: "byte list list \<Rightarrow> nat" where
  "pending chunks = sum_list (map (\<lambda>c. Suc (length c)) chunks)"

lemma recv_pending:
  "recv n s = (Inr bs, s') \<Longrightarrow> 0 < n \<Longrightarrow> pending (inbox s') < pending (inbox s)"
  by (auto simp: recv_def pending_def split: list.splits if_splits)

text \<open>
  The two loops of \<^verbatim>\<open>receive_message\<close>; \<open>prefix\<close> is the source's \<^verbatim>\<open>length\<close>
  and \<open>n\<close> its \<^verbatim>\<open>size\<close>.
\<close>

function recv_length :: "byte list \<Rightarrow> byte list action" where
  "recv_length prefix s =
     (if length prefix < 4
      then (case recv 4 s of
              (Inl e, s') \<Rightarrow> (Inl e, s')
            | (Inr bs, s') \<Rightarrow> recv_length (prefix @ bs) s')
      else (Inr prefix, s))"
  by pat_completeness auto
termination
  by (relation "measure (\<lambda>(prefix, s). pending (inbox s))")
     (auto dest!: recv_pending [OF sym])

function recv_data :: "nat \<Rightarrow> pystr \<Rightarrow> pystr action" where
  "recv_data n data s =
     (if length data < n
      then (case recv n s of
              (Inl e, s') \<Rightarrow> (Inl e, s')
            | (Inr bs, s') \<Rightarrow>
                (case bytes_decode bs of
                   Inl e \<Rightarrow> (Inl e, s')
                 | Inr text \<Rightarrow> recv_data n (data @ text) s'))
      else (Inr data, s))"
  by pat_completeness auto
termination
  by (relation "measure (\<lambda>(n, data, s). pending (inbox s))")
     (auto dest!: recv_pending [OF sym])

definition receive_message :: "externals \<Rightarrow> bool \<Rightarrow> json action" where
  "receive_message X isJson =
     bind (recv_length []) (\<lambda>prefix.
     bind (lift (struct_unpack_L prefix)) (\<lambda>n.
     bind (recv_data n []) (\<lambda>data.
     if isJson then bind (lift (json_loads X data)) (\<lambda>message. return (JDict message))
     else return (JStr data))))"


section \<open>Dictionaries, comparisons and truth values\<close>

definition getitem :: "message \<Rightarrow> string \<Rightarrow> error + json" where
  "getitem d k = (case map_of d (py k) of None \<Rightarrow> Inl KeyError | Some v \<Rightarrow> Inr v)"

text \<open>\<^verbatim>\<open>if v:\<close> and \<^verbatim>\<open>if v == True:\<close> on a decoded value.\<close>

definition truthy :: "json \<Rightarrow> bool" where
  "truthy v =
     (case v of
        JNull \<Rightarrow> False
      | JBool b \<Rightarrow> b
      | JInt i \<Rightarrow> i \<noteq> 0
      | JStr t \<Rightarrow> t \<noteq> []
      | JList l \<Rightarrow> l \<noteq> []
      | JDict d \<Rightarrow> d \<noteq> [])"

definition equals_True :: "json \<Rightarrow> bool" where
  "equals_True v = (case v of JBool b \<Rightarrow> b | JInt i \<Rightarrow> i = 1 | _ \<Rightarrow> False)"

text \<open>\<^verbatim>\<open>num_instances > 0\<close>: only a number is ordered against 0.\<close>

definition greater_zero :: "json \<Rightarrow> error + bool" where
  "greater_zero v =
     (case v of
        JBool b \<Rightarrow> Inr b
      | JInt i \<Rightarrow> Inr (0 < i)
      | _ \<Rightarrow> Inl TypeError)"

text \<open>An operand of \<^verbatim>\<open>+\<close> beside a text must be a text.\<close>

definition text_of :: "json \<Rightarrow> error + pystr" where
  "text_of v = (case v of JStr t \<Rightarrow> Inr t | _ \<Rightarrow> Inl TypeError)"

definition message_debug :: "message \<Rightarrow> json" where
  "message_debug message =
     (case map_of message (py ''debug'') of Some v \<Rightarrow> v | None \<Rightarrow> JBool False)"

text \<open>\<^verbatim>\<open>sub in text\<close> for two texts: \<open>sub\<close> occurs in \<open>text\<close>.\<close>

fun contains :: "pystr \<Rightarrow> pystr \<Rightarrow> bool" where
  "contains sub [] = (sub = [])"
| "contains sub (c # cs) = (take (length sub) (c # cs) = sub \<or> contains sub cs)"

text \<open>
  \<^verbatim>\<open>message_debug\<close> applied to a text (\<^verbatim>\<open>send_instances\<close> rebinds its
  \<^verbatim>\<open>message\<close> to the text of the error): \<^verbatim>\<open>'debug' in message\<close> is then a
  substring test, and \<^verbatim>\<open>message['debug']\<close> raises, a text being indexed by
  integers only.
\<close>

definition message_debug_of_text :: "pystr \<Rightarrow> error + json" where
  "message_debug_of_text message =
     (if contains (py ''debug'') message then Inl TypeError else Inr (JBool False))"

section \<open>Acknowledgements and the Environment\<close>

definition ack_command_err :: "externals \<Rightarrow> pystr \<Rightarrow> unit action" where
  "ack_command_err X message =
     send_response X
       (PDict [(py ''response'', PStr (py ''error'')), (py ''error_message'', PStr message)])
       True"

definition ack_command_ok :: "externals \<Rightarrow> unit action" where
  "ack_command_ok X = send_response X (PDict [(py ''response'', PStr (py ''ok''))]) True"

text \<open>
  \<^verbatim>\<open>get_variable(var_name)\<close>. The keys of \<^verbatim>\<open>_local_env\<close> are texts; a list or
  a dictionary is unhashable, any other name is simply not a key.
\<close>

definition get_variable :: "json \<Rightarrow> pyval action" where
  "get_variable var_name s =
     (case var_name of
        JStr name \<Rightarrow>
          (case local_env s name of Some v \<Rightarrow> (Inr v, s) | None \<Rightarrow> (Inr PNone, s))
      | JList _ \<Rightarrow> (Inl TypeError, s)
      | JDict _ \<Rightarrow> (Inl TypeError, s)
      | _ \<Rightarrow> (Inr PNone, s))"

text \<open>\<^verbatim>\<open>_local_env[var_name] = object\<close>.\<close>

definition set_variable :: "json \<Rightarrow> pyval \<Rightarrow> unit action" where
  "set_variable var_name object s =
     (case var_name of
        JStr name \<Rightarrow> (Inr (), s\<lparr>local_env := (local_env s)(name \<mapsto> object)\<rparr>)
      | JList _ \<Rightarrow> (Inl TypeError, s)
      | JDict _ \<Rightarrow> (Inl TypeError, s)
      | _ \<Rightarrow> (Inl OutsideModel, s))"

section \<open>Output capture\<close>

definition send_debug_buffer :: "externals \<Rightarrow> unit action" where
  "send_debug_buffer X =
     bind get_stdout (\<lambda>tOut.
     bind get_stderr (\<lambda>tErr.
     bind (getvalue tOut) (\<lambda>std_out.
     bind (getvalue tErr) (\<lambda>std_err.
     (let ok_response =
            PDict [(py ''response'', PStr (py ''ok'')),
                   (py ''std_out'', PStr std_out),
                   (py ''std_err'', PStr std_err)]
      in bind (close tOut) (\<lambda>_.
         bind (close tErr) (\<lambda>_.
         bind StringIO (\<lambda>out.
         bind (set_stdout out) (\<lambda>_.
         bind StringIO (\<lambda>err.
         bind (set_stderr err) (\<lambda>_.
         send_response X ok_response True)))))))))))"

section \<open>Instance marshalling\<close>

text \<open>
  \<^verbatim>\<open>Series.unique()\<close>: the distinct values in order of first appearance; all NaN
  count as one value.
\<close>

primrec unique :: "cell list \<Rightarrow> cell list" where
  "unique [] = []"
| "unique (v # vs) = v # filter (\<lambda>w. w \<noteq> v) (unique vs)"

text \<open>\<^verbatim>\<open>is_nan(s)\<close>: \<^verbatim>\<open>math.isnan\<close> raises on a text, which the handler turns into False.\<close>

definition is_nan :: "cell \<Rightarrow> bool" where
  "is_nan s = (case s of CNaN \<Rightarrow> True | _ \<Rightarrow> False)"

definition cell_value :: "cell \<Rightarrow> pyval" where
  "cell_value c = (case c of CStr t \<Rightarrow> PStr t | CBool b \<Rightarrow> PBool b | CNaN \<Rightarrow> PNaN)"

text \<open>
  One pass of the loop of \<^verbatim>\<open>instances_to_header_message\<close>. The test
  \<^verbatim>\<open>distinct.size < num_rows / 2\<close> is Python 3's true division, an exact comparison
  of an integer with half the row count.
\<close>

definition attribute_of :: "dataframe \<Rightarrow> pystr \<Rightarrow> pydict" where
  "attribute_of frame att_name =
     (case find (\<lambda>c. col_name c = att_name) (columns frame) of
        None \<Rightarrow> []
      | Some c \<Rightarrow>
          (let num_rows = index_size frame; dtype = col_dtype c in
           if dtype = Dtype_object \<or> dtype = Dtype_bool then
             (let distinct = unique (col_values c) in
              if 2 * length distinct < num_rows
              then [(py ''name'', PStr att_name), (py ''type'', PStr (py ''NOMINAL'')),
                    (py ''values'',
                     PList (map cell_value (filter (\<lambda>val. \<not> is_nan val) distinct)))]
              else [(py ''name'', PStr att_name), (py ''type'', PStr (py ''STRING''))])
           else if dtype = Dtype_datetime
           then [(py ''name'', PStr att_name), (py ''type'', PStr (py ''DATE''))]
           else [(py ''name'', PStr att_name), (py ''type'', PStr (py ''NUMERIC''))]))"

definition instances_to_header_message :: "pyval \<Rightarrow> dataframe \<Rightarrow> pyval" where
  "instances_to_header_message frame_name frame =
     PDict [(py ''relation_name'', frame_name),
            (py ''attributes'',
             PList (map (\<lambda>att_name. PDict (attribute_of frame att_name))
                        (map col_name (columns frame))))]"

text \<open>
  \<^verbatim>\<open>len(frame.index)\<close>: a DataFrame and an instance of a subclass have an index;
  \<^verbatim>\<open>None\<close>, a number or a dictionary has no attribute \<^verbatim>\<open>index\<close>; for a text
  or a list \<^verbatim>\<open>index\<close> is a method, which has no length.
\<close>

definition frame_index :: "pyval \<Rightarrow> error + dataframe" where
  "frame_index frame =
     (case frame of
        PFrame f \<Rightarrow> Inr f
      | PFrameSubclass f \<Rightarrow> Inr f
      | PStr _ \<Rightarrow> Inl TypeError
      | PList _ \<Rightarrow> Inl TypeError
      | _ \<Rightarrow> Inl AttributeError)"

text \<open>\<^verbatim>\<open>type(frame) is pd.DataFrame\<close>: false for an instance of a subclass.\<close>

definition is_DataFrame :: "pyval \<Rightarrow> bool" where
  "is_DataFrame v = (case v of PFrame _ \<Rightarrow> True | _ \<Rightarrow> False)"

text \<open>
  \<^verbatim>\<open>send_instances(message)\<close>. In the branch of the error the handler assigns the
  text of the error to its parameter \<^verbatim>\<open>message\<close>, and there is no \<^verbatim>\<open>return\<close>:
  the statements that build and send the header and the data follow in both branches,
  with \<^verbatim>\<open>message_debug\<close> applied to what \<^verbatim>\<open>message\<close> then is.
\<close>

datatype message_or_text = Message message | ErrorText pystr

definition send_instances :: "externals \<Rightarrow> message \<Rightarrow> unit action" where
  "send_instances X message =
     bind (lift (getitem message ''frame_name'')) (\<lambda>frame_name.
     bind (get_variable frame_name) (\<lambda>frame.
     bind (if \<not> is_DataFrame frame
           then bind (lift (text_of frame_name)) (\<lambda>name.
                  (let message = py ''Variable '' @ name @
                         (if frame = PNone then py '' is not defined''
                          else py '' is not a DataFrame object'')
                   in bind (ack_command_err X message) (\<lambda>_. return (ErrorText message))))
           else bind (ack_command_ok X) (\<lambda>_. return (Message message))) (\<lambda>message.
     bind (lift (frame_index frame)) (\<lambda>f.
     (let response =
            PDict [(py ''response'', PStr (py ''instances_header'')),
                   (py ''num_instances'', PInt (int (index_size f))),
                   (py ''header'', instances_to_header_message (of_json frame_name) f)]
      in bind (lift (case message of
                       Message m \<Rightarrow> Inr (message_debug m)
                     | ErrorText t \<Rightarrow> message_debug_of_text t)) (\<lambda>debug.
         bind (if equals_True debug then print (str_of X response) else return ()) (\<lambda>_.
         bind (send_response X response True) (\<lambda>_.
         send_response X (PStr (to_csv X f)) False))))))))"

text \<open>
  \<^verbatim>\<open>_local_env['headers'][frame_name] = header\<close>: the entry \<^verbatim>\<open>headers\<close> must be
  there and be a dictionary.
\<close>

definition store_header :: "json \<Rightarrow> json \<Rightarrow> unit action" where
  "store_header frame_name header s =
     (case local_env s (py ''headers'') of
        None \<Rightarrow> (Inl KeyError, s)
      | Some (PDict headers) \<Rightarrow>
          (case frame_name of
             JStr name \<Rightarrow>
               (Inr (), s\<lparr>local_env := (local_env s)
                    (py ''headers'' \<mapsto> PDict (AList.update name (of_json header) headers))\<rparr>)
           | JList _ \<Rightarrow> (Inl TypeError, s)
           | JDict _ \<Rightarrow> (Inl TypeError, s)
           | _ \<Rightarrow> (Inl OutsideModel, s))
      | Some _ \<Rightarrow> (Inl TypeError, s))"

text \<open>\<^verbatim>\<open>header['frame_name']\<close>: only a dictionary can be indexed by a text.\<close>

definition subscript :: "json \<Rightarrow> string \<Rightarrow> error + json" where
  "subscript v k = (case v of JDict d \<Rightarrow> getitem d k | _ \<Rightarrow> Inl TypeError)"

definition receive_instances :: "externals \<Rightarrow> message \<Rightarrow> unit action" where
  "receive_instances X message =
     (case map_of message (py ''header'') of
        Some header \<Rightarrow>
          bind (lift (subscript header ''frame_name'')) (\<lambda>frame_name.
          bind (store_header frame_name header) (\<lambda>_.
          bind (lift (getitem message ''num_instances'')) (\<lambda>num_instances.
          bind (lift (greater_zero num_instances)) (\<lambda>positive.
          bind (if positive
                then bind (receive_message X False) (\<lambda>csv_data.
                     bind (lift (text_of csv_data)) (\<lambda>csv_text.
                     bind (lift (read_csv X csv_text)) (\<lambda>frame.
                     bind (set_variable frame_name (PFrame frame)) (\<lambda>_.
                     if equals_True (message_debug message)
                     then print (frame_info X frame @ py ''None \<newline>'')
                     else return ()))))
                else return ()) (\<lambda>_.
          ack_command_ok X)))))
      | None \<Rightarrow>
          ack_command_err X (py ''put instances json message does not contain a header entry!''))"


section \<open>Variable exchange\<close>

subsection \<open>The base64 text carrier\<close>

text \<open>
  \<^verbatim>\<open>base64.b64encode\<close> (RFC 4648, standard alphabet, padded) and
  \<^verbatim>\<open>base64.b64decode\<close> with its default \<^verbatim>\<open>validate=False\<close>, which is the
  non-strict loop of \<^verbatim>\<open>binascii.a2b_base64\<close>: octets outside the alphabet are
  skipped, a pad that completes a quad ends the input, and leftover data characters
  raise \<^verbatim>\<open>binascii.Error\<close>.
\<close>

definition b64_char :: "nat \<Rightarrow> byte" where
  "b64_char i =
     of_nat (if i < 26 then 0x41 + i
             else if i < 52 then 0x61 + (i - 26)
             else if i < 62 then 0x30 + (i - 52)
             else if i = 62 then 0x2B
             else 0x2F)"

definition b64_index :: "byte \<Rightarrow> nat option" where
  "b64_index ch =
     (if 0x41 \<le> unat ch \<and> unat ch \<le> 0x5A then Some (unat ch - 0x41)
      else if 0x61 \<le> unat ch \<and> unat ch \<le> 0x7A then Some (unat ch - 0x61 + 26)
      else if 0x30 \<le> unat ch \<and> unat ch \<le> 0x39 then Some (unat ch - 0x30 + 52)
      else if ch = 0x2B then Some 62
      else if ch = 0x2F then Some 63
      else None)"

fun b64encode :: "byte list \<Rightarrow> byte list" where
  "b64encode [] = []"
| "b64encode [a] =
     [b64_char (unat a div 4), b64_char (unat a mod 4 * 16), 0x3D, 0x3D]"
| "b64encode [a, b] =
     [b64_char (unat a div 4), b64_char (unat a mod 4 * 16 + unat b div 16),
      b64_char (unat b mod 16 * 4), 0x3D]"
| "b64encode (a # b # c # rest) =
     [b64_char (unat a div 4), b64_char (unat a mod 4 * 16 + unat b div 16),
      b64_char (unat b mod 16 * 4 + unat c div 64), b64_char (unat c mod 64)]
     @ b64encode rest"

fun a2b_base64 :: "nat \<Rightarrow> nat \<Rightarrow> nat \<Rightarrow> byte list \<Rightarrow> byte list \<Rightarrow> error + byte list" where
  "a2b_base64 quad_pos leftchar pads bin_data [] =
     (if quad_pos \<noteq> 0 then Inl BinasciiError else Inr bin_data)"
| "a2b_base64 quad_pos leftchar pads bin_data (this_ch # rest) =
     (if this_ch = 0x3D then
        (if 2 \<le> quad_pos \<and> 4 \<le> quad_pos + (pads + 1) then Inr bin_data
         else a2b_base64 quad_pos leftchar (if 2 \<le> quad_pos then pads + 1 else pads)
                bin_data rest)
      else
        (case b64_index this_ch of
           None \<Rightarrow> a2b_base64 quad_pos leftchar pads bin_data rest
         | Some v \<Rightarrow>
             if quad_pos = 0 then a2b_base64 1 v 0 bin_data rest
             else if quad_pos = 1 then
               a2b_base64 2 (v mod 16) 0 (bin_data @ [of_nat (leftchar * 4 + v div 16)]) rest
             else if quad_pos = 2 then
               a2b_base64 3 (v mod 4) 0 (bin_data @ [of_nat (leftchar * 16 + v div 4)]) rest
             else a2b_base64 0 0 0 (bin_data @ [of_nat (leftchar * 64 + v)]) rest))"

definition b64decode :: "byte list \<Rightarrow> error + byte list" where
  "b64decode s = a2b_base64 0 0 0 [] s"

definition base64_encode :: "byte list \<Rightarrow> error + pystr" where
  "base64_encode v = bytes_decode (b64encode v)"

text \<open>\<^verbatim>\<open>base64_decode(value)\<close>: only a text has \<^verbatim>\<open>encode\<close>.\<close>

definition base64_decode :: "json \<Rightarrow> error + byte list" where
  "base64_decode v =
     (case v of
        JStr text \<Rightarrow>
          (case str_encode text of Inl e \<Rightarrow> Inl e | Inr b64b \<Rightarrow> b64decode b64b)
      | _ \<Rightarrow> Inl AttributeError)"

subsection \<open>Handlers\<close>

definition send_variable_is_set :: "externals \<Rightarrow> message \<Rightarrow> unit action" where
  "send_variable_is_set X message =
     (case map_of message (py ''variable_name'') of
        Some var_name \<Rightarrow>
          bind (get_variable var_name) (\<lambda>var_value.
          send_response X
            (PDict [(py ''response'', PStr (py ''ok'')),
                    (py ''variable_name'', of_json var_name),
                    (py ''variable_exists'', PBool (var_value \<noteq> PNone))])
            True)
      | None \<Rightarrow>
          ack_command_err X
            (py ''object exists json message does not contain a variable_name entry!''))"

definition send_encoded_variable_value :: "externals \<Rightarrow> message \<Rightarrow> unit action" where
  "send_encoded_variable_value X message =
     (case map_of message (py ''variable_name'') of
        Some var_name \<Rightarrow>
          bind (get_variable var_name) (\<lambda>object.
          if object \<noteq> PNone then
            bind (lift (getitem message ''variable_encoding'')) (\<lambda>encoding.
            bind (if encoding = JStr (py ''pickled'') then
                    bind (lift (pickle_dumps X object)) (\<lambda>encoded_object.
                    bind (lift (base64_encode encoded_object)) (\<lambda>b64s.
                    return (PStr b64s)))
                  else if encoding = JStr (py ''json'') then return object
                  else if encoding = JStr (py ''string'') then return (PStr (str_of X object))
                  else return PNone) (\<lambda>encoded_object.
            (let ok_response =
                   PDict [(py ''response'', PStr (py ''ok'')),
                          (py ''variable_name'', of_json var_name),
                          (py ''variable_encoding'', of_json encoding),
                          (py ''variable_value'', encoded_object)]
             in bind (if equals_True (message_debug message) then
                        bind (lift (text_of encoding)) (\<lambda>e.
                        bind (lift (text_of var_name)) (\<lambda>n.
                        print (py ''Sending '' @ e @ py '' value for var '' @ n @ py ''\<newline>'')))
                      else return ()) (\<lambda>_.
                send_response X ok_response True))))
          else
            bind (lift (text_of var_name)) (\<lambda>n.
            ack_command_err X (n @ py '' does not exist!'')))
      | None \<Rightarrow>
          ack_command_err X
            (py ''get variable value json message does not contain a variable_name entry!''))"

definition send_variable_value :: "externals \<Rightarrow> message \<Rightarrow> unit action" where
  "send_variable_value X message =
     (case map_of message (py ''variable_encoding'') of
        Some encoding \<Rightarrow>
          if encoding = JStr (py ''pickled'') \<or> encoding = JStr (py ''json'')
             \<or> encoding = JStr (py ''string'')
          then send_encoded_variable_value X message
          else ack_command_err X (py ''Unknown encoding type for send variable value message'')
      | None \<Rightarrow>
          ack_command_err X
            (py ''send variable value message does not contain an encoding field''))"

definition receive_pickled_variable_value :: "externals \<Rightarrow> message \<Rightarrow> unit action" where
  "receive_pickled_variable_value X message =
     (case (map_of message (py ''variable_name''), map_of message (py ''variable_value'')) of
        (Some var_name, Some pickled_var_value) \<Rightarrow>
          bind (lift (base64_decode pickled_var_value)) (\<lambda>pickled_bytes.
          bind (lift (pickle_loads X pickled_bytes)) (\<lambda>object.
          bind (set_variable var_name object) (\<lambda>_.
          ack_command_ok X)))
      | _ \<Rightarrow>
          ack_command_err X
            (py ''put variable value json message does not contain a variable_name or variable_value entry!''))"

definition receive_variable_value :: "externals \<Rightarrow> message \<Rightarrow> unit action" where
  "receive_variable_value X message =
     (case map_of message (py ''variable_encoding'') of
        Some encoding \<Rightarrow>
          if encoding = JStr (py ''pickled'') then receive_pickled_variable_value X message
          else return ()
      | None \<Rightarrow>
          ack_command_err X
            (py ''receive variable value message does not contain an encoding field''))"

section \<open>Script execution bridge\<close>

text \<open>
  What \<^verbatim>\<open>traceback.print_exc(file=error)\<close> writes: its heading line, then the frames
  and the exception line.
\<close>

definition traceback_print_exc :: "pystr \<Rightarrow> pystr" where
  "traceback_print_exc detail = py ''Traceback (most recent call last):\<newline>'' @ detail"

text \<open>
  \<^verbatim>\<open>execute_script(message)\<close>. An exception outside class \<^verbatim>\<open>Exception\<close> is not
  caught by \<^verbatim>\<open>except Exception\<close> and leaves the handler.
\<close>

definition execute_script :: "externals \<Rightarrow> message \<Rightarrow> unit action" where
  "execute_script X message =
     (case map_of message (py ''script'') of
        Some script \<Rightarrow>
          bind get_stdout (\<lambda>tOut.
          bind get_stderr (\<lambda>tErr.
          bind StringIO (\<lambda>output.
          bind StringIO (\<lambda>error.
          bind (if truthy (message_debug message) then
                  bind (lift (text_of script)) (\<lambda>source.
                  print (py ''Executing script...\<newline>\<newline>'' @ source))
                else return ()) (\<lambda>_.
          bind (set_stdout output) (\<lambda>_.
          bind (set_stderr error) (\<lambda>_.
          bind (exec X script) (\<lambda>ended.
          bind (case ended of
                  Completed \<Rightarrow> return ()
                | RaisedException detail \<Rightarrow>
                    bind (print (py ''Got an exception executing script'')) (\<lambda>_.
                    write_to error (traceback_print_exc detail))
                | RaisedSystemExit \<Rightarrow> raise SystemExit) (\<lambda>_.
          bind (set_stdout tOut) (\<lambda>_.
          bind (set_stderr tErr) (\<lambda>_.
          bind (getvalue output) (\<lambda>script_out.
          bind (getvalue error) (\<lambda>script_error.
          send_response X
            (PDict [(py ''response'', PStr (py ''ok'')),
                    (py ''script_out'', PStr script_out),
                    (py ''script_error'', PStr script_error)])
            True)))))))))))))
      | None \<Rightarrow>
          ack_command_err X
            (py ''execute script json message does not contain a script entry!''))"

section \<open>Command dispatcher\<close>

text \<open>The body of the loop of \<^verbatim>\<open>runServer\<close>, after \<^verbatim>\<open>receive_message(True)\<close>.\<close>

definition dispatch :: "externals \<Rightarrow> message \<Rightarrow> unit action" where
  "dispatch X message =
     (case map_of message (py ''command'') of
        Some command \<Rightarrow>
          if command = JStr (py ''put_instances'') then receive_instances X message
          else if command = JStr (py ''get_instances'') then send_instances X message
          else if command = JStr (py ''execute_script'') then execute_script X message
          else if command = JStr (py ''get_variable_value'') then send_variable_value X message
          else if command = JStr (py ''variable_is_set'') then send_variable_is_set X message
          else if command = JStr (py ''set_variable_value'') then receive_variable_value X message
          else if command = JStr (py ''get_debug_buffer'') then send_debug_buffer X
          else if command = JStr (py ''shutdown'') then
            (\<lambda>s. bind (if global_startup_debug s
                       then print (py ''Received shutdown command...\<newline>'')
                       else return ()) (\<lambda>_. raise SystemExit) s)
          else return ()
      | None \<Rightarrow>
          (\<lambda>s. (if global_startup_debug s
                then print (py ''message did not contain a command field!'')
                else return ()) s))"

definition serve_one :: "externals \<Rightarrow> unit action" where
  "serve_one X =
     bind (receive_message X True) (\<lambda>message.
     case message of JDict d \<Rightarrow> dispatch X d | _ \<Rightarrow> raise OutsideModel)"


section \<open>The loop of the server\<close>

text \<open>
  No action of the worker adds to what the transport still has to deliver, and a message
  is received only by taking something from it. So the loop of \<^verbatim>\<open>runServer\<close> is a
  total function of the state: it runs until a handler raises, the host asks for
  shutdown, or the transport has nothing more to deliver.
\<close>

definition consumes_only :: "'a action \<Rightarrow> bool" where
  "consumes_only m = (\<forall>s r s'. m s = (r, s') \<longrightarrow> pending (inbox s') \<le> pending (inbox s))"

lemma consumes_onlyI:
  "(\<And>s r s'. m s = (r, s') \<Longrightarrow> pending (inbox s') \<le> pending (inbox s)) \<Longrightarrow> consumes_only m"
  by (simp add: consumes_only_def)

lemma consumes_onlyD:
  "consumes_only m \<Longrightarrow> m s = (r, s') \<Longrightarrow> pending (inbox s') \<le> pending (inbox s)"
  by (simp add: consumes_only_def)

lemma consumes_return [intro!, simp]: "consumes_only (return x)"
  by (simp add: consumes_only_def return_def)

lemma consumes_raise [intro!, simp]: "consumes_only (raise e)"
  by (simp add: consumes_only_def raise_def)

lemma consumes_lift [intro!, simp]: "consumes_only (lift r)"
  by (cases r) (simp_all add: lift_def)

lemma consumes_bind [intro!]:
  assumes "consumes_only m" and "\<And>x. consumes_only (f x)"
  shows "consumes_only (bind m f)"
proof (rule consumes_onlyI)
  fix s r s'
  assume run: "bind m f s = (r, s')"
  obtain r1 s1 where m: "m s = (r1, s1)" by (cases "m s")
  have le1: "pending (inbox s1) \<le> pending (inbox s)"
    using assms(1) m by (rule consumes_onlyD)
  show "pending (inbox s') \<le> pending (inbox s)"
  proof (cases r1)
    case (Inl e)
    with run m have "s' = s1" by (simp add: bind_def)
    with le1 show ?thesis by simp
  next
    case (Inr x)
    with run m have "f x s1 = (r, s')" by (simp add: bind_def)
    then have "pending (inbox s') \<le> pending (inbox s1)"
      using assms(2) by (rule consumes_onlyD [rotated])
    with le1 show ?thesis by simp
  qed
qed

lemma consumes_if [intro!]:
  "consumes_only m \<Longrightarrow> consumes_only n \<Longrightarrow> consumes_only (if c then m else n)"
  by simp

lemma consumes_buffers [intro!, simp]:
  "consumes_only StringIO" "consumes_only (write_to b t)" "consumes_only (getvalue b)"
  "consumes_only (close b)" "consumes_only get_stdout" "consumes_only get_stderr"
  "consumes_only (set_stdout b)" "consumes_only (set_stderr b)" "consumes_only (print t)"
  by (simp_all add: consumes_only_def StringIO_def write_to_def getvalue_def close_def
      get_stdout_def get_stderr_def set_stdout_def set_stderr_def print_def)

lemma consumes_exec [intro!, simp]: "consumes_only (exec X script)"
  by (simp add: consumes_only_def exec_def Let_def bind_def write_to_def return_def)

lemma consumes_sendall [intro!, simp]: "consumes_only (sendall bs)"
  by (simp add: consumes_only_def sendall_def)

lemma consumes_recv [intro!, simp]: "consumes_only (recv n)"
  by (auto simp: consumes_only_def recv_def pending_def split: list.splits)

lemma consumes_send_response [intro!, simp]: "consumes_only (send_response X response isJson)"
  unfolding send_response_def by (auto split: pyval.split)

lemma consumes_ack [intro!, simp]:
  "consumes_only (ack_command_err X t)" "consumes_only (ack_command_ok X)"
  by (simp_all add: ack_command_err_def ack_command_ok_def)

lemma consumes_variables [intro!, simp]:
  "consumes_only (get_variable v)" "consumes_only (set_variable v x)"
  "consumes_only (store_header v h)"
  by (auto simp: consumes_only_def get_variable_def set_variable_def store_header_def
      split: json.splits option.splits pyval.splits)

lemma recv_length_le:
  "recv_length prefix s = (r, s') \<Longrightarrow> pending (inbox s') \<le> pending (inbox s)"
proof (induction prefix s rule: recv_length.induct)
  case (1 prefix s)
  show ?case
  proof (cases "length prefix < 4")
    case False
    with "1.prems" show ?thesis by simp
  next
    case True
    obtain r1 s1 where rc: "recv 4 s = (r1, s1)" by (cases "recv 4 s")
    have le1: "pending (inbox s1) \<le> pending (inbox s)"
      using consumes_recv rc by (rule consumes_onlyD)
    show ?thesis
    proof (cases r1)
      case (Inl e)
      with True rc "1.prems" have "s' = s1" by simp
      with le1 show ?thesis by simp
    next
      case (Inr bs)
      with True rc "1.prems" have "recv_length (prefix @ bs) s1 = (r, s')" by simp
      with "1.IH" [OF True rc [symmetric, unfolded Inr]] le1 show ?thesis by simp
    qed
  qed
qed

lemma recv_data_le:
  "recv_data n data s = (r, s') \<Longrightarrow> pending (inbox s') \<le> pending (inbox s)"
proof (induction n data s rule: recv_data.induct)
  case (1 n data s)
  show ?case
  proof (cases "length data < n")
    case False
    with "1.prems" show ?thesis by simp
  next
    case True
    obtain r1 s1 where rc: "recv n s = (r1, s1)" by (cases "recv n s")
    have le1: "pending (inbox s1) \<le> pending (inbox s)"
      using consumes_recv rc by (rule consumes_onlyD)
    show ?thesis
    proof (cases r1)
      case (Inl e)
      with True rc "1.prems" have "s' = s1" by simp
      with le1 show ?thesis by simp
    next
      case (Inr bs)
      note bs = this
      show ?thesis
      proof (cases "bytes_decode bs")
        case (Inl e)
        with True rc bs "1.prems" have "s' = s1" by simp
        with le1 show ?thesis by simp
      next
        case (Inr decoded)
        with True rc bs "1.prems" have "recv_data n (data @ decoded) s1 = (r, s')" by simp
        from "1.IH" [OF True rc [symmetric] bs Inr this] le1
        show ?thesis by simp
      qed
    qed
  qed
qed

lemma consumes_receive_message [intro!, simp]: "consumes_only (receive_message X isJson)"
proof -
  have "consumes_only (recv_length prefix)" "consumes_only (recv_data n data)" for prefix n data
    by (rule consumes_onlyI, erule recv_length_le) (rule consumes_onlyI, erule recv_data_le)
  then show ?thesis
    unfolding receive_message_def by auto
qed

lemma recv_length_less:
  assumes "recv_length [] s = (Inr prefix, s')"
  shows "pending (inbox s') < pending (inbox s)"
proof -
  obtain r1 s1 where rc: "recv 4 s = (r1, s1)" by (cases "recv 4 s")
  show ?thesis
  proof (cases r1)
    case (Inl e)
    with rc assms show ?thesis by simp
  next
    case (Inr bs)
    with rc assms have "recv_length bs s1 = (Inr prefix, s')" by simp
    then have "pending (inbox s') \<le> pending (inbox s1)" by (rule recv_length_le)
    moreover have "pending (inbox s1) < pending (inbox s)"
      using rc [unfolded Inr] by (rule recv_pending) simp
    ultimately show ?thesis by simp
  qed
qed

lemma receive_message_less:
  assumes "receive_message X isJson s = (Inr m, s')"
  shows "pending (inbox s') < pending (inbox s)"
proof -
  obtain r1 s1 where rl: "recv_length [] s = (r1, s1)" by (cases "recv_length [] s")
  show ?thesis
  proof (cases r1)
    case (Inl e)
    with rl assms show ?thesis by (simp add: receive_message_def bind_def)
  next
    case (Inr prefix)
    have lt: "pending (inbox s1) < pending (inbox s)"
      using rl [unfolded Inr] by (rule recv_length_less)
    let ?rest = "bind (lift (struct_unpack_L prefix)) (\<lambda>n.
                 bind (recv_data n []) (\<lambda>data.
                 if isJson then bind (lift (json_loads X data)) (\<lambda>message. return (JDict message))
                 else return (JStr data)))"
    have "?rest s1 = (Inr m, s')"
      using assms rl Inr by (simp add: receive_message_def bind_def)
    moreover have "consumes_only ?rest"
      by (intro consumes_bind consumes_lift consumes_if consumes_return consumes_onlyI)
         (erule recv_data_le)
    ultimately have "pending (inbox s') \<le> pending (inbox s1)" by (rule consumes_onlyD [rotated])
    with lt show ?thesis by simp
  qed
qed

lemma consumes_handlers [intro!, simp]:
  "consumes_only (send_debug_buffer X)"
  "consumes_only (send_instances X message)"
  "consumes_only (receive_instances X message)"
  "consumes_only (send_variable_is_set X message)"
  "consumes_only (send_encoded_variable_value X message)"
  "consumes_only (receive_pickled_variable_value X message)"
  "consumes_only (execute_script X message)"
  unfolding send_debug_buffer_def send_instances_def receive_instances_def
    send_variable_is_set_def send_encoded_variable_value_def
    receive_pickled_variable_value_def execute_script_def Let_def
  by (auto split: option.split script_end.split)

lemma consumes_dispatch [intro!, simp]: "consumes_only (dispatch X message)"
proof -
  have "consumes_only (send_variable_value X message)"
    "consumes_only (receive_variable_value X message)"
    unfolding send_variable_value_def receive_variable_value_def
    by (auto split: option.split)
  moreover have "consumes_only (\<lambda>s. bind (if global_startup_debug s then print t else return ())
                                 (\<lambda>_. raise SystemExit) s)"
    "consumes_only (\<lambda>s. (if global_startup_debug s then print t else return ()) s)" for t
    by (auto simp: consumes_only_def bind_def print_def write_to_def return_def raise_def)
  ultimately show ?thesis
    unfolding dispatch_def by (auto split: option.split)
qed

lemma serve_one_less:
  assumes "serve_one X s = (Inr u, s')"
  shows "pending (inbox s') < pending (inbox s)"
proof -
  obtain r1 s1 where rm: "receive_message X True s = (r1, s1)"
    by (cases "receive_message X True s")
  show ?thesis
  proof (cases r1)
    case (Inl e)
    with rm assms show ?thesis by (simp add: serve_one_def bind_def)
  next
    case (Inr m)
    have lt: "pending (inbox s1) < pending (inbox s)"
      using rm [unfolded Inr] by (rule receive_message_less)
    have "(case m of JDict d \<Rightarrow> dispatch X d | _ \<Rightarrow> raise OutsideModel) s1 = (Inr u, s')"
      using assms rm Inr by (simp add: serve_one_def bind_def)
    moreover have "consumes_only (case m of JDict d \<Rightarrow> dispatch X d | _ \<Rightarrow> raise OutsideModel)"
      by (cases m) simp_all
    ultimately have "pending (inbox s') \<le> pending (inbox s1)" by (rule consumes_onlyD [rotated])
    with lt show ?thesis by simp
  qed
qed

text \<open>The \<^verbatim>\<open>while 1\<close> loop: it ends only with an exception.\<close>

function runServer_loop :: "externals \<Rightarrow> server \<Rightarrow> error \<times> server" where
  "runServer_loop X s =
     (case serve_one X s of
        (Inl e, s') \<Rightarrow> (e, s')
      | (Inr _, s') \<Rightarrow> runServer_loop X s')"
  by pat_completeness auto
termination
  by (relation "measure (\<lambda>(X, s). pending (inbox s))")
     (auto dest!: serve_one_less [OF sym])

text \<open>
  \<^verbatim>\<open>runServer()\<close>: the start-up handshake, the loop, and \<^verbatim>\<open>finally\<close> the close of the
  connection (which a loop waiting on a silent transport never reaches).
\<close>

definition runServer :: "externals \<Rightarrow> server \<Rightarrow> error \<times> server" where
  "runServer X s =
     (case bind (if global_startup_debug s
                 then print (py ''Python server starting...\<newline>'') else return ()) (\<lambda>_.
           bind (\<lambda>s. (Inr (), s\<lparr>local_env := (local_env s)(py ''headers'' \<mapsto> PDict [])\<rparr>)) (\<lambda>_.
           send_response X
             (PDict [(py ''response'', PStr (py ''pid_response'')), (py ''pid'', PInt (getpid X))])
             True)) s of
        (Inl e, s') \<Rightarrow> (e, s')
      | (Inr _, s') \<Rightarrow>
          (case runServer_loop X s' of
             (e, s'') \<Rightarrow>
               (e, if e = TransportStalled then s'' else s''\<lparr>connection_closed := True\<rparr>)))"

section \<open>The state after start-up\<close>

text \<open>
  The module's top-level statements leave both environments empty and install two new
  capture buffers; \<open>debug\<close> is whether \<^verbatim>\<open>sys.argv[2]\<close> is \<^verbatim>\<open>'debug'\<close>, and
  \<open>arrivals\<close> is what the host is going to send.
\<close>

definition module_state :: "bool \<Rightarrow> byte list list \<Rightarrow> server" where
  "module_state debug arrivals =
     \<lparr>global_startup_debug = debug, global_env = Map.empty, local_env = Map.empty,
      buffers = (\<lambda>_. []), allocated = 2, sys_stdout = 0, sys_stderr = 1,
      sent = [], inbox = arrivals, connection_closed = False\<rparr>"

text \<open>
  The capture buffers are installed properly when they are two different objects of the
  store.
\<close>

definition installed :: "server \<Rightarrow> bool" where
  "installed s = (sys_stdout s < allocated s \<and> sys_stderr s < allocated s
                  \<and> sys_stdout s \<noteq> sys_stderr s)"

text \<open>An action keeps the capture buffers installed.\<close>

definition keeps_installed :: "'a action \<Rightarrow> bool" where
  "keeps_installed m = (\<forall>s r s'. installed s \<longrightarrow> m s = (r, s') \<longrightarrow> installed s')"

text \<open>
  What \<^verbatim>\<open>output.getvalue()\<close> and \<^verbatim>\<open>error.getvalue()\<close> are at the end of
  \<^verbatim>\<open>execute_script\<close>, for a run of the script.
\<close>

definition captured_out :: "exec_outcome \<Rightarrow> pystr" where
  "captured_out run = printed_out run @
     (case ending run of
        RaisedException _ \<Rightarrow> py ''Got an exception executing script\<newline>''
      | _ \<Rightarrow> [])"

definition captured_err :: "exec_outcome \<Rightarrow> pystr" where
  "captured_err run = printed_err run @
     (case ending run of RaisedException detail \<Rightarrow> traceback_print_exc detail | _ \<Rightarrow> [])"

section \<open>Collaborators for examples\<close>

text \<open>
  \<^verbatim>\<open>json.dumps\<close> with its default arguments on the fragment: separators
  \<^verbatim>\<open>', '\<close> and \<^verbatim>\<open>': '\<close>, and every character outside printable ASCII escaped.
\<close>

definition hex_digit :: "nat \<Rightarrow> nat" where
  "hex_digit d = (if d < 10 then 0x30 + d else 0x57 + d)"

definition escape_u :: "nat \<Rightarrow> pystr" where
  "escape_u c = [0x5C, 0x75, hex_digit (c div 4096 mod 16), hex_digit (c div 256 mod 16),
                 hex_digit (c div 16 mod 16), hex_digit (c mod 16)]"

definition escape_code_point :: "nat \<Rightarrow> pystr" where
  "escape_code_point c =
     (if c = 0x22 then [0x5C, 0x22]
      else if c = 0x5C then [0x5C, 0x5C]
      else if c = 0x0A then [0x5C, 0x6E]
      else if c = 0x0D then [0x5C, 0x72]
      else if c = 0x09 then [0x5C, 0x74]
      else if c = 0x08 then [0x5C, 0x62]
      else if c = 0x0C then [0x5C, 0x66]
      else if 0x20 \<le> c \<and> c \<le> 0x7E then [c]
      else if c < 0x10000 then escape_u c
      else escape_u (0xD800 + (c - 0x10000) div 1024) @ escape_u (0xDC00 + (c - 0x10000) mod 1024))"

definition quoted :: "pystr \<Rightarrow> pystr" where
  "quoted t = [0x22] @ concat (map escape_code_point t) @ [0x22]"

function decimal :: "nat \<Rightarrow> pystr" where
  "decimal n = (if n < 10 then [0x30 + n] else decimal (n div 10) @ [0x30 + n mod 10])"
  by pat_completeness auto
termination
  by (relation "measure id") auto

fun join :: "pystr list \<Rightarrow> pystr" where
  "join [] = []"
| "join [t] = t"
| "join (t # ts) = t @ [0x2C, 0x20] @ join ts"

fun collect :: "(error + 'a) list \<Rightarrow> error + 'a list" where
  "collect [] = Inr []"
| "collect (Inl e # rs) = Inl e"
| "collect (Inr x # rs) = (case collect rs of Inl e \<Rightarrow> Inl e | Inr xs \<Rightarrow> Inr (x # xs))"

fun dumps :: "pyval \<Rightarrow> error + pystr" where
  "dumps PNone = Inr (py ''null'')"
| "dumps (PBool b) = Inr (if b then py ''true'' else py ''false'')"
| "dumps (PInt i) = Inr (if i < 0 then 0x2D # decimal (nat (- i)) else decimal (nat i))"
| "dumps PNaN = Inr (py ''NaN'')"
| "dumps (PStr t) = Inr (quoted t)"
| "dumps (PList l) =
     (case collect (map dumps l) of
        Inl e \<Rightarrow> Inl e
      | Inr ts \<Rightarrow> Inr ([0x5B] @ join ts @ [0x5D]))"
| "dumps (PDict d) =
     (case collect (map (\<lambda>kv. case dumps (snd kv) of
                                  Inl e \<Rightarrow> Inl e
                                | Inr t \<Rightarrow> Inr (quoted (fst kv) @ [0x3A, 0x20] @ t)) d) of
        Inl e \<Rightarrow> Inl e
      | Inr ts \<Rightarrow> Inr ([0x7B] @ join ts @ [0x7D]))"
| "dumps (PFrame f) = Inl TypeError"
| "dumps (PFrameSubclass f) = Inl TypeError"

definition loads_known :: "message list \<Rightarrow> pystr \<Rightarrow> error + message" where
  "loads_known known t =
     (case find (\<lambda>m. dumps (of_json (JDict m)) = Inr t) known of
        None \<Rightarrow> Inl ValueError
      | Some m \<Rightarrow> Inr m)"

definition pickle_of_None :: "byte list" where
  "pickle_of_None = [0x80, 0x04, 0x4E, 0x2E]"

definition nested :: pyval where
  "nested = PDict [(py ''k'', PList [PInt 1, PInt 2])]"

definition pickle_of_nested :: "byte list" where
  "pickle_of_nested =
     [0x80, 0x04, 0x95, 0x10, 0, 0, 0, 0, 0, 0, 0, 0x7D, 0x94, 0x8C, 0x01, 0x6B, 0x94, 0x5D,
      0x94, 0x28, 0x4B, 0x01, 0x4B, 0x02, 0x65, 0x73, 0x2E]"

definition no_effect :: "env \<Rightarrow> env \<Rightarrow> exec_outcome" where
  "no_effect g l = \<lparr>globals_after = g, locals_after = l, printed_out = [], printed_err = [],
                    ending = Completed\<rparr>"

text \<open>
  The collaborators of the examples: the serializer above, a decoder that recognises the
  serializations of the given messages, an object codec that knows the pickles of
  \<^verbatim>\<open>None\<close> and of \<^verbatim>\<open>{'k': [1, 2]}\<close>, and an executor that knows three scripts.
\<close>

definition sample :: "message list \<Rightarrow> externals" where
  "sample known =
     \<lparr>json_dumps = dumps,
      json_loads = loads_known known,
      pickle_dumps = (\<lambda>v. if v = PNone then Inr pickle_of_None
                            else if v = nested then Inr pickle_of_nested
                            else Inl TypeError),
      pickle_loads = (\<lambda>bs. if bs = pickle_of_None then Inr PNone
                             else if bs = pickle_of_nested then Inr nested
                             else Inl ValueError),
      exec_script = (\<lambda>script g l.
         if script = JStr (py ''raise SystemExit'')
         then (no_effect g l)\<lparr>ending := RaisedSystemExit\<rparr>
         else if script = JStr (py ''1/0'')
         then (no_effect g l)\<lparr>ending := RaisedException (py ''ZeroDivisionError: division by zero\<newline>'')\<rparr>
         else if script = JStr (py ''print(1)'')
         then (no_effect g l)\<lparr>printed_out := py ''1\<newline>''\<rparr>
         else no_effect g l),
      read_csv = (\<lambda>_. Inl ValueError),
      to_csv = (\<lambda>_. []),
      frame_info = (\<lambda>_. []),
      str_of = (\<lambda>_. []),
      getpid = 4242\<rparr>"


text \<open>The octets of an ASCII text.\<close>

definition wire :: "string \<Rightarrow> byte list" where
  "wire t = map of_char t"

text \<open>Two tables with one textual column each.\<close>

definition survey :: dataframe where
  "survey = \<lparr>index_size = 4, columns =
     [\<lparr>col_name = py ''colour'', col_dtype = Dtype_object,
       col_values = [CStr (py ''a''), CNaN, CStr (py ''a''), CStr (py ''a'')]\<rparr>]\<rparr>"

definition letters :: dataframe where
  "letters = \<lparr>index_size = 7, columns =
     [\<lparr>col_name = py ''letter'', col_dtype = Dtype_object,
       col_values = [CStr (py ''a''), CStr (py ''a''), CStr (py ''a''), CStr (py ''b''),
                     CStr (py ''b''), CStr (py ''c''), CStr (py ''c'')]\<rparr>]\<rparr>"


definition set_x_as_json :: message where
  "set_x_as_json =
     [(py ''command'', JStr (py ''set_variable_value'')),
      (py ''variable_name'', JStr (py ''x'')),
      (py ''variable_value'', JStr (py ''gAROLg=='')),
      (py ''variable_encoding'', JStr (py ''json''))]"

definition only_debug :: message where
  "only_debug = [(py ''debug'', JBool True)]"

definition run_division :: message where
  "run_division = [(py ''command'', JStr (py ''execute_script'')), (py ''script'', JStr (py ''1/0''))]"

definition run_exit :: message where
  "run_exit = [(py ''command'', JStr (py ''execute_script'')),
               (py ''script'', JStr (py ''raise SystemExit''))]"

definition run_print_debug :: message where
  "run_print_debug = [(py ''command'', JStr (py ''execute_script'')),
                      (py ''script'', JStr (py ''print(1)'')), (py ''debug'', JBool True)]"

definition set_x_none :: message where
  "set_x_none =
     [(py ''command'', JStr (py ''set_variable_value'')),
      (py ''variable_name'', JStr (py ''x'')),
      (py ''variable_value'', JStr (py ''gAROLg=='')),
      (py ''variable_encoding'', JStr (py ''pickled''))]"

definition is_x_set :: message where
  "is_x_set =
     [(py ''command'', JStr (py ''variable_is_set'')), (py ''variable_name'', JStr (py ''x''))]"

definition get_x :: message where
  "get_x =
     [(py ''command'', JStr (py ''get_variable_value'')),
      (py ''variable_name'', JStr (py ''x'')),
      (py ''variable_encoding'', JStr (py ''pickled''))]"

definition set_v_nested :: message where
  "set_v_nested =
     [(py ''command'', JStr (py ''set_variable_value'')),
      (py ''variable_name'', JStr (py ''v'')),
      (py ''variable_value'', JStr (py ''gASVEAAAAAAAAAB9lIwBa5RdlChLAUsCZXMu'')),
      (py ''variable_encoding'', JStr (py ''pickled''))]"

definition is_v_set :: message where
  "is_v_set =
     [(py ''command'', JStr (py ''variable_is_set'')), (py ''variable_name'', JStr (py ''v''))]"

definition get_v :: message where
  "get_v =
     [(py ''command'', JStr (py ''get_variable_value'')),
      (py ''variable_name'', JStr (py ''v'')),
      (py ''variable_encoding'', JStr (py ''pickled''))]"

text \<open>
  The state after \<^verbatim>\<open>set_variable_value\<close> has stored an object under a name in the
  state after start-up and has acknowledged, and the state after the script
  \<^verbatim>\<open>1/0\<close> has been run there.
\<close>

definition stored :: "string \<Rightarrow> pyval \<Rightarrow> server" where
  \<open>stored name object =
     (module_state False [])
       \<lparr>local_env := [py name \<mapsto> object], sent := [0, 0, 0, 18] @ wire ''{"response": "ok"}''\<rparr>\<close>

definition after_division :: server where
  "after_division = snd (execute_script (sample []) run_division (module_state False []))"

section \<open>Basic facts\<close>

lemma py_eq_iff [simp]: "py a = py b \<longleftrightarrow> a = b"
  by (simp add: py_def inj_map_eq_map inj_of_char)

lemma py_append [simp]: "py a @ py b = py (a @ b)"
  by (simp add: py_def)

lemma py_append_more [simp]: "py a @ py b @ t = py (a @ b) @ t"
  by (simp add: py_def)

lemma bind_return [simp]: "bind (return x) f = f x"
  by (rule ext) (simp add: bind_def return_def)

lemma bind_raise [simp]: "bind (raise e) f = raise e"
  by (rule ext) (simp add: bind_def raise_def)

lemma lift_Inr [simp]: "lift (Inr x) = return x"
  by (simp add: lift_def)

lemma lift_Inl [simp]: "lift (Inl e) = raise e"
  by (simp add: lift_def)

lemmas action_defs = bind_def return_def raise_def lift_def StringIO_def write_to_def getvalue_def
  close_def get_stdout_def get_stderr_def set_stdout_def set_stderr_def print_def exec_def

lemma send_response_state:
  "send_response X response isJson s = (r, s') \<Longrightarrow> s' = s\<lparr>sent := sent s'\<rparr>"
  by (auto simp: send_response_def bind_def return_def raise_def lift_def sendall_def
      split: if_splits sum.splits pyval.splits prod.splits)

subsection \<open>Base64 decoding undoes encoding\<close>

lemma unat_byte_less: "unat (a :: byte) < 256"
  using unsigned_less [of a, where 'a = nat] by simp

lemma hi4: "b < 256 \<Longrightarrow> b div 16 < (16::nat)"
  by (simp add: less_mult_imp_div_less)

lemma hi2: "c < 256 \<Longrightarrow> c div 64 < (4::nat)"
  by (simp add: less_mult_imp_div_less)

lemma hi6: "a < 256 \<Longrightarrow> a div 4 < (64::nat)"
  by (simp add: less_mult_imp_div_less)

lemma sextets:
  fixes a b c :: nat
  assumes "b < 256" "c < 256"
  shows "(a mod 4 * 16 + b div 16) div 16 = a mod 4"
    and "(a mod 4 * 16 + b div 16) mod 16 = b div 16"
    and "(b mod 16 * 4 + c div 64) div 4 = b mod 16"
    and "(b mod 16 * 4 + c div 64) mod 4 = c div 64"
    and "a div 4 * 4 + a mod 4 = a"
    and "b div 16 * 16 + b mod 16 = b"
    and "c div 64 * 64 + c mod 64 = c"
  using hi4 [OF assms(1)] hi2 [OF assms(2)] by simp_all

lemma sextet_bounds:
  fixes a b c :: nat
  assumes "a < 256" "b < 256" "c < 256"
  shows "a div 4 < 64" "a mod 4 * 16 + b div 16 < 64" "b mod 16 * 4 + c div 64 < 64"
    "c mod 64 < 64" "a mod 4 * 16 < 64" "b mod 16 * 4 < 64"
proof -
  have "a mod 4 < 4" "b mod 16 < 16" by simp_all
  with hi4 [OF assms(2)] hi2 [OF assms(3)] hi6 [OF assms(1)]
  show "a div 4 < 64" "a mod 4 * 16 + b div 16 < 64" "b mod 16 * 4 + c div 64 < 64"
    "c mod 64 < 64" "a mod 4 * 16 < 64" "b mod 16 * 4 < 64"
    by linarith+
qed


lemma unat_b64_char:
  "i < 64 \<Longrightarrow> unat (b64_char i) =
     (if i < 26 then 0x41 + i
      else if i < 52 then 0x61 + (i - 26)
      else if i < 62 then 0x30 + (i - 52)
      else if i = 62 then 0x2B
      else 0x2F)"
  unfolding b64_char_def unat_of_nat by simp

lemma b64_index_char: "i < 64 \<Longrightarrow> b64_index (b64_char i) = Some i"
proof -
  assume i: "i < 64"
  have pad: "b64_char i = 0x2B \<longleftrightarrow> unat (b64_char i) = 0x2B"
    "b64_char i = 0x2F \<longleftrightarrow> unat (b64_char i) = 0x2F"
    by (simp_all add: word_unat_eq_iff)
  show ?thesis
    using i unfolding b64_index_def pad by (auto simp: unat_b64_char)
qed

lemma b64_char_not_pad: "i < 64 \<Longrightarrow> b64_char i \<noteq> 0x3D"
  by (auto simp: word_unat_eq_iff unat_b64_char)

lemma b64_char_ascii: "i < 64 \<Longrightarrow> unat (b64_char i) < 0x80"
  by (auto simp: unat_b64_char)


lemma a2b_char:
  "i < 64 \<Longrightarrow> a2b_base64 q l p out (b64_char i # rest) =
     (if q = 0 then a2b_base64 1 i 0 out rest
      else if q = 1 then a2b_base64 2 (i mod 16) 0 (out @ [of_nat (l * 4 + i div 16)]) rest
      else if q = 2 then a2b_base64 3 (i mod 4) 0 (out @ [of_nat (l * 16 + i div 4)]) rest
      else a2b_base64 0 0 0 (out @ [of_nat (l * 64 + i)]) rest)"
  by (simp add: b64_index_char b64_char_not_pad)

lemma a2b_pad:
  "a2b_base64 q l p out (0x3D # rest) =
     (if 2 \<le> q \<and> 4 \<le> q + (p + 1) then Inr out
      else a2b_base64 q l (if 2 \<le> q then p + 1 else p) out rest)"
  by simp

lemma of_nat_unat_byte: "of_nat (unat b) = (b :: byte)"
  by simp

lemma a2b_quad:
  assumes "i1 < 64" "i2 < 64" "i3 < 64" "i4 < 64"
  shows "a2b_base64 0 l 0 out (b64_char i1 # b64_char i2 # b64_char i3 # b64_char i4 # rest)
         = a2b_base64 0 0 0
             (out @ [of_nat (i1 * 4 + i2 div 16), of_nat (i2 mod 16 * 16 + i3 div 4),
                     of_nat (i3 mod 4 * 64 + i4)]) rest"
  using assms by (simp add: a2b_char del: a2b_base64.simps(2) of_nat_add of_nat_mult)

lemma a2b_pair:
  assumes "i1 < 64" "i2 < 64"
  shows "a2b_base64 0 l 0 out [b64_char i1, b64_char i2, 0x3D, 0x3D]
         = Inr (out @ [of_nat (i1 * 4 + i2 div 16)])"
  using assms by (simp add: a2b_char a2b_pad del: a2b_base64.simps(2) of_nat_add of_nat_mult)

lemma a2b_triple:
  assumes "i1 < 64" "i2 < 64" "i3 < 64"
  shows "a2b_base64 0 l 0 out [b64_char i1, b64_char i2, b64_char i3, 0x3D]
         = Inr (out @ [of_nat (i1 * 4 + i2 div 16), of_nat (i2 mod 16 * 16 + i3 div 4)])"
  using assms by (simp add: a2b_char a2b_pad del: a2b_base64.simps(2) of_nat_add of_nat_mult)

lemma a2b_b64encode:
  "a2b_base64 0 l 0 out (b64encode bs) = Inr (out @ bs)"
proof (induction bs arbitrary: l out rule: b64encode.induct)
  case 1
  show ?case by simp
next
  case (2 a)
  have a: "unat a < 256" by (rule unat_byte_less)
  have e1: "unat a div 4 * 4 + unat a mod 4 * 16 div 16 = unat a" by simp
  show ?case
    using sextet_bounds [OF a a a]
    by (simp only: b64encode.simps a2b_pair e1 of_nat_unat_byte)
next
  case (3 a b)
  have a: "unat a < 256" and b: "unat b < 256" by (rule unat_byte_less)+
  have e1: "unat a div 4 * 4 + (unat a mod 4 * 16 + unat b div 16) div 16 = unat a"
    by (simp only: sextets [OF b b])
  have e2: "(unat a mod 4 * 16 + unat b div 16) mod 16 * 16 + unat b mod 16 * 4 div 4 = unat b"
    by (simp only: sextets [OF b b]) simp
  show ?case
    using sextet_bounds [OF a b b]
    by (simp only: b64encode.simps a2b_triple e1 e2 of_nat_unat_byte)
next
  case (4 a b c rest)
  have a: "unat a < 256" and b: "unat b < 256" and c: "unat c < 256"
    by (rule unat_byte_less)+
  have e1: "unat a div 4 * 4 + (unat a mod 4 * 16 + unat b div 16) div 16 = unat a"
    by (simp only: sextets [OF b c])
  have e2: "(unat a mod 4 * 16 + unat b div 16) mod 16 * 16
            + (unat b mod 16 * 4 + unat c div 64) div 4 = unat b"
    by (simp only: sextets [OF b c])
  have e3: "(unat b mod 16 * 4 + unat c div 64) mod 4 * 64 + unat c mod 64 = unat c"
    by (simp only: sextets [OF b c])
  have "a2b_base64 0 l 0 out (b64encode (a # b # c # rest))
        = a2b_base64 0 0 0 (out @ [a, b, c]) (b64encode rest)"
    using sextet_bounds [OF a b c]
    by (simp only: b64encode.simps append_Cons append_Nil a2b_quad e1 e2 e3 of_nat_unat_byte)
  also have "\<dots> = Inr ((out @ [a, b, c]) @ rest)" by (rule "4.IH")
  finally show ?case by simp
qed


subsection \<open>ASCII texts\<close>

lemma bytes_decode_ascii:
  "list_all (\<lambda>b. unat b < 0x80) bs \<Longrightarrow> bytes_decode bs = Inr (map unat bs)"
  by (induction bs) (simp_all add: prepend_def)

lemma str_encode_ascii:
  "list_all (\<lambda>c. c < 0x80) t \<Longrightarrow> str_encode t = Inr (map of_nat t)"
  by (induction t) (simp_all add: encode_code_point_def)

lemma b64encode_ascii: "list_all (\<lambda>b. unat b < 0x80) (b64encode bs)"
proof (induction bs rule: b64encode.induct)
  case 1
  show ?case by simp
next
  case (2 a)
  show ?case
    using sextet_bounds [OF unat_byte_less [of a] unat_byte_less [of a] unat_byte_less [of a]]
    by (simp add: b64_char_ascii)
next
  case (3 a b)
  show ?case
    using sextet_bounds [OF unat_byte_less [of a] unat_byte_less [of b] unat_byte_less [of b]]
    by (simp add: b64_char_ascii)
next
  case (4 a b c rest)
  then show ?case
    using sextet_bounds [OF unat_byte_less [of a] unat_byte_less [of b] unat_byte_less [of c]]
    by (simp add: b64_char_ascii)
qed

lemma base64_encode_eq: "base64_encode bs = Inr (map unat (b64encode bs))"
  by (simp add: base64_encode_def bytes_decode_ascii b64encode_ascii)

lemma base64_decode_encode:
  assumes "base64_encode bs = Inr carrier"
  shows "base64_decode (JStr carrier) = Inr bs"
proof -
  have carrier: "carrier = map unat (b64encode bs)"
    using assms by (simp add: base64_encode_eq)
  have "list_all (\<lambda>c. c < 0x80) (map unat (b64encode bs))"
    using b64encode_ascii [of bs] by (simp add: list_all_iff)
  then have "str_encode carrier = Inr (map of_nat (map unat (b64encode bs)))"
    unfolding carrier by (rule str_encode_ascii)
  also have "map of_nat (map unat (b64encode bs)) = b64encode bs"
    by (simp add: map_idI)
  finally show ?thesis
    by (simp add: base64_decode_def b64decode_def a2b_b64encode)
qed

subsection \<open>Frames of ASCII text\<close>

text \<open>
  The length prefix is read back as it was packed, and a payload of ASCII octets is
  received whole however the transport splits it, when the prefix arrives on its own.
  An arrival that holds a code point of more than one octet leaves the data loop
  waiting for octets that were never announced.
\<close>

lemma base256:
  fixes n :: nat
  assumes "n < 2 ^ 32"
  shows "(n div 2 ^ 24) mod 256 * 2 ^ 24 + (n div 2 ^ 16) mod 256 * 2 ^ 16
         + (n div 2 ^ 8) mod 256 * 2 ^ 8 + n mod 256 = n"
proof -
  define n1 where "n1 = n div 256"
  define n2 where "n2 = n1 div 256"
  define n3 where "n3 = n2 div 256"
  have d1: "n div 2 ^ 8 = n1" by (simp add: n1_def)
  have d2: "n div 2 ^ 16 = n2"
    using div_mult2_eq [of n 256 256] by (simp add: n1_def n2_def)
  have d3: "n div 2 ^ 24 = n3"
    using div_mult2_eq [of n 65536 256] d2 by (simp add: n3_def)
  have small: "n3 < 256"
    using assms d3 by (simp add: less_mult_imp_div_less flip: d3)
  have e0: "n = n1 * 256 + n mod 256" by (simp add: n1_def)
  have e1: "n1 = n2 * 256 + n1 mod 256" by (simp add: n2_def)
  have e2: "n2 = n3 * 256 + n2 mod 256" by (simp add: n3_def)
  have "n3 mod 256 * 2 ^ 24 + n2 mod 256 * 2 ^ 16 + n1 mod 256 * 2 ^ 8 + n mod 256 = n"
    using small e0 e1 e2 by simp
  then show ?thesis by (simp only: d1 d2 d3)
qed

lemma struct_unpack_pack:
  assumes "struct_pack_L n = Inr prefix"
  shows "struct_unpack_L prefix = Inr n \<and> length prefix = 4"
proof -
  from assms have n: "n < 2 ^ 32"
    and prefix: "prefix = [of_nat (n div 2 ^ 24), of_nat (n div 2 ^ 16), of_nat (n div 2 ^ 8),
                           of_nat n]"
    by (auto simp: struct_pack_L_def split: if_splits)
  show ?thesis
    unfolding prefix struct_unpack_L_def using base256 [OF n] n
    by (simp add: unat_of_nat)
qed


lemma recv_data_ascii:
  assumes "list_all (\<lambda>b. unat b < 0x80) (concat chunks)"
    and "length data + length (concat chunks) = n"
    and "inbox s = chunks @ rest"
  shows "\<exists>left. recv_data n data s = (Inr (data @ map unat (concat chunks)), s\<lparr>inbox := left @ rest\<rparr>)
                \<and> concat left = []"
  using assms
proof (induction chunks arbitrary: data s)
  case Nil
  then show ?case by (auto intro!: exI [of _ "[]"])
next
  case (Cons c chunks)
  show ?case
  proof (cases "length data < n")
    case False
    with Cons.prems(2) have empty: "c = []" "concat chunks = []" by auto
    from False have "recv_data n data s = (Inr data, s)" by simp
    with empty Cons.prems(3) show ?thesis
      by (auto intro!: exI [of _ "c # chunks"])
  next
    case True
    have len: "length c \<le> n" using Cons.prems(2) by simp
    have ascii: "list_all (\<lambda>b. unat b < 0x80) c" "list_all (\<lambda>b. unat b < 0x80) (concat chunks)"
      using Cons.prems(1) by simp_all
    let ?s1 = "s\<lparr>inbox := chunks @ rest\<rparr>"
    have rc: "recv n s = (Inr c, ?s1)"
      using Cons.prems(3) len by (simp add: recv_def)
    have step: "recv_data n data s = recv_data n (data @ map unat c) ?s1"
      using True rc by (simp add: bytes_decode_ascii [OF ascii(1)])
    have "\<exists>left. recv_data n (data @ map unat c) ?s1
             = (Inr ((data @ map unat c) @ map unat (concat chunks)), ?s1\<lparr>inbox := left @ rest\<rparr>)
           \<and> concat left = []"
      using ascii(2) Cons.prems(2) by (intro Cons.IH) simp_all
    then show ?thesis unfolding step by simp
  qed
qed

lemma receive_message_ascii:
  assumes pack: "struct_pack_L (length payload) = Inr prefix"
    and ascii: "list_all (\<lambda>b. unat b < 0x80) payload"
    and chunks: "concat chunks = payload"
    and inbox: "inbox s = prefix # chunks @ rest"
  shows "\<exists>left. receive_message X False s
                 = (Inr (JStr (map unat payload)), s\<lparr>inbox := left @ rest\<rparr>)
               \<and> concat left = []"
proof -
  from struct_unpack_pack [OF pack]
  have unpack: "struct_unpack_L prefix = Inr (length payload)" and four: "length prefix = 4"
    by simp_all
  let ?s1 = "s\<lparr>inbox := chunks @ rest\<rparr>"
  have "recv 4 s = (Inr prefix, ?s1)"
    using inbox four by (simp add: recv_def)
  then have len: "recv_length [] s = (Inr prefix, ?s1)"
    using four by simp
  have "\<exists>left. recv_data (length payload) [] ?s1
                 = (Inr ([] @ map unat (concat chunks)), ?s1\<lparr>inbox := left @ rest\<rparr>)
               \<and> concat left = []"
    using ascii chunks by (intro recv_data_ascii) simp_all
  then obtain left where data: "recv_data (length payload) [] ?s1
      = (Inr (map unat payload), s\<lparr>inbox := left @ rest\<rparr>)" and left: "concat left = []"
    using chunks by auto
  have "receive_message X False s = (Inr (JStr (map unat payload)), s\<lparr>inbox := left @ rest\<rparr>)"
    using len unpack data
    by (simp add: receive_message_def bind_def lift_def return_def)
  with left show ?thesis by blast
qed

lemma receive_message_stalls_on_wide_character:
  "receive_message X False (module_state False [[0, 0, 0, 2, 0xC3, 0xA9]])
   = (Inl TransportStalled, module_state False [])"
  by (simp add: receive_message_def bind_def lift_def return_def recv_def module_state_def
      struct_unpack_L_def bytes_decode.simps prepend_def continuation_def payload_bits_def)

subsection \<open>Distinct values in order of first appearance\<close>

lemma set_unique: "set (unique vs) = set vs"
  by (induction vs) auto

lemma distinct_unique: "distinct (unique vs)"
  by (induction vs) (auto simp: set_unique)

lemma length_unique: "length (unique vs) = card (set vs)"
  by (metis distinct_card distinct_unique set_unique)

lemma unique_snoc:
  "unique (vs @ [v]) = (if v \<in> set vs then unique vs else unique vs @ [v])"
  by (induction vs) (auto simp: set_unique)

lemma find_column:
  "distinct (map col_name cs) \<Longrightarrow> c \<in> set cs \<Longrightarrow> find (\<lambda>d. col_name d = col_name c) cs = Some c"
  by (induction cs) auto

lemma is_nan_iff: "is_nan v \<longleftrightarrow> v = CNaN"
  by (cases v) (simp_all add: is_nan_def)

subsection \<open>Handlers step by step\<close>

lemmas wire_defs = send_response_def struct_pack_L_def sendall_def py_def quoted_def
  escape_code_point_def encode_code_point_def wire_def

lemmas receive_defs = receive_message_def recv_def struct_unpack_L_def bind_def return_def
  prepend_def sample_def loads_known_def

lemma bind_get_variable [simp]:
  "bind (get_variable (JStr name)) f s
   = f (case local_env s name of None \<Rightarrow> PNone | Some v \<Rightarrow> v) s"
  by (simp add: bind_def get_variable_def split: option.split)

lemma bind_print:
  "bind (print t) f s
   = f () (s\<lparr>buffers := (buffers s)(sys_stdout s := buffers s (sys_stdout s) @ t @ py ''\<newline>'')\<rparr>)"
  by (simp add: bind_def print_def write_to_def)


lemma loop_step:
  assumes "receive_message X True s = (Inr (JDict message), s1)"
    and "dispatch X message s1 = (Inr (), s2)"
  shows "runServer_loop X s = runServer_loop X s2"
  using assms by (subst runServer_loop.simps) (simp add: serve_one_def bind_def)

lemma traceback_not_empty: "traceback_print_exc detail \<noteq> []"
  by (simp add: traceback_print_exc_def py_def)

lemma installed_module_state: "installed (module_state debug arrivals)"
  by (simp add: installed_def module_state_def)

lemma execute_script_run:
  assumes "map_of message (py ''script'') = Some (JStr source)"
    and "run = exec_script X (JStr source) (global_env s) (local_env s)"
    and "ending run \<noteq> RaisedSystemExit"
    and "installed s"
  shows "execute_script X message s
         = send_response X
             (PDict [(py ''response'', PStr (py ''ok'')),
                     (py ''script_out'', PStr (captured_out run)),
                     (py ''script_error'', PStr (captured_err run))])
             True
             (s\<lparr>global_env := globals_after run, local_env := locals_after run,
                buffers := (buffers s)
                  (allocated s := captured_out run, Suc (allocated s) := captured_err run,
                   sys_stdout s := buffers s (sys_stdout s) @
                     (if truthy (message_debug message)
                      then py ''Executing script...\<newline>\<newline>'' @ source @ py ''\<newline>''
                      else [])),
                allocated := Suc (Suc (allocated s))\<rparr>)"
proof (cases "ending run")
  case Completed
  with assms show ?thesis
    by (auto simp: execute_script_def action_defs text_of_def installed_def captured_out_def
        captured_err_def Let_def fun_upd_twist intro!: arg_cong [where f="send_response _ _ _"])
next
  case (RaisedException detail)
  with assms show ?thesis
    by (auto simp: execute_script_def action_defs text_of_def installed_def captured_out_def
        captured_err_def Let_def fun_upd_twist intro!: arg_cong [where f="send_response _ _ _"])
next
  case RaisedSystemExit
  with assms show ?thesis by simp
qed

lemma set_pickled:
  assumes "map_of message (py ''variable_encoding'') = Some (JStr (py ''pickled''))"
    and "map_of message (py ''variable_name'') = Some (JStr name)"
    and "map_of message (py ''variable_value'') = Some pickled_var_value"
    and "base64_decode pickled_var_value = Inr pickled_bytes"
    and "pickle_loads X pickled_bytes = Inr object"
  shows "receive_variable_value X message s
         = ack_command_ok X (s\<lparr>local_env := (local_env s)(name \<mapsto> object)\<rparr>)"
  using assms
  by (simp add: receive_variable_value_def receive_pickled_variable_value_def bind_def
      set_variable_def)

lemma set_pickled_env:
  assumes "map_of message (py ''variable_encoding'') = Some (JStr (py ''pickled''))"
    and "map_of message (py ''variable_name'') = Some (JStr name)"
    and "map_of message (py ''variable_value'') = Some pickled_var_value"
    and "base64_decode pickled_var_value = Inr pickled_bytes"
    and "pickle_loads X pickled_bytes = Inr object"
    and "receive_variable_value X message s = (r, s')"
  shows "local_env s' = (local_env s)(name \<mapsto> object)"
proof -
  from assms(6) have "ack_command_ok X (s\<lparr>local_env := (local_env s)(name \<mapsto> object)\<rparr>) = (r, s')"
    by (simp add: set_pickled [OF assms(1-5)])
  then have "s' = (s\<lparr>local_env := (local_env s)(name \<mapsto> object)\<rparr>)\<lparr>sent := sent s'\<rparr>"
    unfolding ack_command_ok_def by (rule send_response_state)
  from arg_cong [OF this, of local_env] show ?thesis by simp
qed

lemma get_pickled:
  assumes "map_of query (py ''variable_name'') = Some (JStr name)"
    and "map_of query (py ''variable_encoding'') = Some (JStr (py ''pickled''))"
    and "local_env s name = Some object"
    and "object \<noteq> PNone"
    and "pickle_dumps X object = Inr pickled_bytes"
    and "base64_encode pickled_bytes = Inr carrier"
  shows "send_encoded_variable_value X query s
         = bind (if equals_True (message_debug query)
                 then print (py ''Sending pickled value for var '' @ name @ py ''\<newline>'')
                 else return ())
             (\<lambda>_. send_response X
                  (PDict [(py ''response'', PStr (py ''ok'')),
                          (py ''variable_name'', PStr name),
                          (py ''variable_encoding'', PStr (py ''pickled'')),
                          (py ''variable_value'', PStr carrier)])
                  True) s"
  using assms
  by (simp add: send_encoded_variable_value_def getitem_def text_of_def Let_def)

subsection \<open>The capture buffers stay installed\<close>

text \<open>
  Every handler, and so the whole loop, leaves \<^verbatim>\<open>sys.stdout\<close> and
  \<^verbatim>\<open>sys.stderr\<close> bound to two different objects of the store.
\<close>

lemma keeps_installedI:
  "(\<And>s r s'. installed s \<Longrightarrow> m s = (r, s') \<Longrightarrow> installed s') \<Longrightarrow> keeps_installed m"
  by (simp add: keeps_installed_def)

lemma keeps_installedD:
  "keeps_installed m \<Longrightarrow> installed s \<Longrightarrow> m s = (r, s') \<Longrightarrow> installed s'"
  by (simp add: keeps_installed_def)

lemma keeps_return [intro!, simp]: "keeps_installed (return x)"
  by (simp add: keeps_installed_def return_def)

lemma keeps_raise [intro!, simp]: "keeps_installed (raise e)"
  by (simp add: keeps_installed_def raise_def)

lemma keeps_lift [intro!, simp]: "keeps_installed (lift r)"
  by (cases r) (simp_all add: lift_def)

lemma keeps_bind [intro!]:
  assumes "keeps_installed m" and "\<And>x. keeps_installed (f x)"
  shows "keeps_installed (bind m f)"
proof (rule keeps_installedI)
  fix s r s'
  assume inst: "installed s" and run: "bind m f s = (r, s')"
  obtain r1 s1 where m: "m s = (r1, s1)" by (cases "m s")
  have i1: "installed s1"
    using assms(1) inst m by (rule keeps_installedD)
  show "installed s'"
  proof (cases r1)
    case (Inl e)
    with run m have "s' = s1" by (simp add: bind_def)
    with i1 show ?thesis by simp
  next
    case (Inr x)
    with run m have "f x s1 = (r, s')" by (simp add: bind_def)
    with assms(2) i1 show ?thesis by (rule keeps_installedD)
  qed
qed

lemma keeps_if [intro!]:
  "keeps_installed m \<Longrightarrow> keeps_installed n \<Longrightarrow> keeps_installed (if c then m else n)"
  by simp

lemma keeps_primitives [intro!, simp]:
  "keeps_installed StringIO" "keeps_installed (write_to b t)" "keeps_installed (getvalue b)"
  "keeps_installed (close b)" "keeps_installed get_stdout" "keeps_installed get_stderr"
  "keeps_installed (print t)" "keeps_installed (sendall bs)" "keeps_installed (recv n)"
  "keeps_installed (exec X script)"
  by (auto simp: keeps_installed_def installed_def StringIO_def write_to_def getvalue_def
      close_def get_stdout_def get_stderr_def print_def sendall_def recv_def exec_def Let_def
      bind_def return_def split: list.splits)

lemma keeps_send_response [intro!, simp]: "keeps_installed (send_response X response isJson)"
  unfolding send_response_def by (auto split: pyval.split)

lemma keeps_ack [intro!, simp]:
  "keeps_installed (ack_command_err X t)" "keeps_installed (ack_command_ok X)"
  by (simp_all add: ack_command_err_def ack_command_ok_def)

lemma keeps_variables [intro!, simp]:
  "keeps_installed (get_variable v)" "keeps_installed (set_variable v x)"
  "keeps_installed (store_header v h)"
  by (auto simp: keeps_installed_def installed_def get_variable_def set_variable_def
      store_header_def split: json.splits option.splits pyval.splits)

lemma recv_length_installed:
  "recv_length prefix s = (r, s') \<Longrightarrow> installed s \<Longrightarrow> installed s'"
proof (induction prefix s rule: recv_length.induct)
  case (1 prefix s)
  show ?case
  proof (cases "length prefix < 4")
    case False
    with "1.prems" show ?thesis by simp
  next
    case True
    obtain r1 s1 where rc: "recv 4 s = (r1, s1)" by (cases "recv 4 s")
    have i1: "installed s1"
      using keeps_primitives(9) "1.prems"(2) rc by (rule keeps_installedD)
    show ?thesis
    proof (cases r1)
      case (Inl e)
      with True rc "1.prems" have "s' = s1" by simp
      with i1 show ?thesis by simp
    next
      case (Inr bs)
      with True rc "1.prems" have "recv_length (prefix @ bs) s1 = (r, s')" by simp
      with "1.IH" [OF True rc [symmetric, unfolded Inr]] i1 show ?thesis by simp
    qed
  qed
qed

lemma recv_data_installed:
  "recv_data n data s = (r, s') \<Longrightarrow> installed s \<Longrightarrow> installed s'"
proof (induction n data s rule: recv_data.induct)
  case (1 n data s)
  show ?case
  proof (cases "length data < n")
    case False
    with "1.prems" show ?thesis by simp
  next
    case True
    obtain r1 s1 where rc: "recv n s = (r1, s1)" by (cases "recv n s")
    have i1: "installed s1"
      using keeps_primitives(9) "1.prems"(2) rc by (rule keeps_installedD)
    show ?thesis
    proof (cases r1)
      case (Inl e)
      with True rc "1.prems" have "s' = s1" by simp
      with i1 show ?thesis by simp
    next
      case (Inr bs)
      note bs = this
      show ?thesis
      proof (cases "bytes_decode bs")
        case (Inl e)
        with True rc bs "1.prems" have "s' = s1" by simp
        with i1 show ?thesis by simp
      next
        case (Inr decoded)
        with True rc bs "1.prems" have "recv_data n (data @ decoded) s1 = (r, s')" by simp
        from "1.IH" [OF True rc [symmetric] bs Inr this] i1
        show ?thesis by simp
      qed
    qed
  qed
qed

lemma keeps_receive_message [intro!, simp]: "keeps_installed (receive_message X isJson)"
proof -
  have "keeps_installed (recv_length prefix)" "keeps_installed (recv_data n data)" for prefix n data
    by (rule keeps_installedI, erule recv_length_installed, assumption)
       (rule keeps_installedI, erule recv_data_installed, assumption)
  then show ?thesis
    unfolding receive_message_def by auto
qed

lemma send_response_addresses:
  "send_response X t j s1 = (r, s') \<Longrightarrow>
     sys_stdout s' = sys_stdout s1 \<and> sys_stderr s' = sys_stderr s1 \<and> allocated s' = allocated s1"
proof -
  assume "send_response X t j s1 = (r, s')"
  then have eq: "s' = s1\<lparr>sent := sent s'\<rparr>" by (rule send_response_state)
  from arg_cong [OF eq, of sys_stdout] arg_cong [OF eq, of sys_stderr]
    arg_cong [OF eq, of allocated]
  show ?thesis by simp
qed

lemma keeps_send_debug_buffer [intro!, simp]: "keeps_installed (send_debug_buffer X)"
  by (rule keeps_installedI)
     (auto simp: send_debug_buffer_def action_defs Let_def installed_def
        dest!: send_response_addresses)

lemma keeps_execute_script [intro!, simp]: "keeps_installed (execute_script X message)"
proof (rule keeps_installedI)
  fix s r s'
  assume inst: "installed s" and run: "execute_script X message s = (r, s')"
  show "installed s'"
  proof (cases "map_of message (py ''script'')")
    case None
    with run have "ack_command_err X
        (py ''execute script json message does not contain a script entry!'') s = (r, s')"
      by (simp add: execute_script_def)
    with keeps_ack(1) inst show ?thesis by (rule keeps_installedD)
  next
    case (Some script)
    show ?thesis
    proof (cases "ending (exec_script X script (global_env s) (local_env s))")
      case Completed
      with run Some inst show ?thesis
        by (auto simp: execute_script_def action_defs installed_def Let_def text_of_def
            split: if_splits json.splits dest!: send_response_addresses)
    next
      case (RaisedException detail)
      with run Some inst show ?thesis
        by (auto simp: execute_script_def action_defs installed_def Let_def text_of_def
            split: if_splits json.splits dest!: send_response_addresses)
    next
      case RaisedSystemExit
      with run Some inst show ?thesis
        by (auto simp: execute_script_def action_defs installed_def Let_def text_of_def
            split: if_splits json.splits)
    qed
  qed
qed

lemma keeps_handlers [intro!, simp]:
  "keeps_installed (send_instances X message)"
  "keeps_installed (receive_instances X message)"
  "keeps_installed (send_variable_is_set X message)"
  "keeps_installed (send_encoded_variable_value X message)"
  "keeps_installed (receive_pickled_variable_value X message)"
  unfolding send_instances_def receive_instances_def
    send_variable_is_set_def send_encoded_variable_value_def
    receive_pickled_variable_value_def Let_def
  by (auto split: option.split)

lemma keeps_dispatch [intro!, simp]: "keeps_installed (dispatch X message)"
proof -
  have "keeps_installed (send_variable_value X message)"
    "keeps_installed (receive_variable_value X message)"
    unfolding send_variable_value_def receive_variable_value_def
    by (auto split: option.split)
  moreover have "keeps_installed (\<lambda>s. bind (if global_startup_debug s then print t else return ())
                                 (\<lambda>_. raise SystemExit) s)"
    "keeps_installed (\<lambda>s. (if global_startup_debug s then print t else return ()) s)" for t
    by (auto simp: keeps_installed_def installed_def bind_def print_def write_to_def return_def
        raise_def)
  ultimately show ?thesis
    unfolding dispatch_def by (auto split: option.split)
qed

lemma dispatch_installed:
  "installed s \<Longrightarrow> dispatch X message s = (r, s') \<Longrightarrow> installed s'"
  using keeps_dispatch by (rule keeps_installedD)

lemma receive_message_installed:
  "installed s \<Longrightarrow> receive_message X isJson s = (r, s') \<Longrightarrow> installed s'"
  using keeps_receive_message by (rule keeps_installedD)

lemma keeps_serve_one [intro!, simp]: "keeps_installed (serve_one X)"
proof -
  have "keeps_installed (case m of JDict d \<Rightarrow> dispatch X d | _ \<Rightarrow> raise OutsideModel)" for m
    by (cases m) simp_all
  then show ?thesis
    unfolding serve_one_def by auto
qed

lemma runServer_loop_installed:
  "installed s \<Longrightarrow> runServer_loop X s = (e, s') \<Longrightarrow> installed s'"
proof (induction X s rule: runServer_loop.induct)
  case (1 X s)
  obtain r1 s1 where step: "serve_one X s = (r1, s1)" by (cases "serve_one X s")
  have i1: "installed s1"
    using keeps_serve_one "1.prems"(1) step by (rule keeps_installedD)
  show ?case
  proof (cases r1)
    case (Inl e1)
    with step "1.prems"(2) have "s' = s1" by simp
    with i1 show ?thesis by simp
  next
    case (Inr u)
    with step "1.prems"(2) have "runServer_loop X s1 = (e, s')" by simp
    with "1.IH" [OF step [symmetric, unfolded Inr] refl i1] show ?thesis by simp
  qed
qed

subsection \<open>The examples, evaluated\<close>

lemma receive_only_debug:
  \<open>receive_message (sample [only_debug]) True
     (module_state True [[0, 0, 0, 15] @ wire ''{"debug": true}''])
   = (Inr (JDict only_debug), module_state True [])\<close>
  by (simp add: receive_message_def recv_def struct_unpack_L_def bind_def return_def
      prepend_def sample_def loads_known_def only_debug_def wire_defs module_state_def)

lemma receive_run_division:
  \<open>receive_message (sample [run_division]) True
     (module_state False
        [[0, 0, 0, 46] @ wire ''{"command": "execute_script", "script": "1/0"}''])
   = (Inr (JDict run_division), module_state False [])\<close>
  by (simp add: receive_defs run_division_def wire_defs module_state_def)

lemma decode_nested:
  "base64_decode (JStr (py ''gASVEAAAAAAAAAB9lIwBa5RdlChLAUsCZXMu'')) = Inr pickle_of_nested"
  by (simp add: base64_decode_def b64decode_def b64_index_def py_def encode_code_point_def
      pickle_of_nested_def)

lemma encode_nested:
  "base64_encode pickle_of_nested = Inr (py ''gASVEAAAAAAAAAB9lIwBa5RdlChLAUsCZXMu'')"
  by (simp add: base64_encode_def b64_char_def prepend_def py_def pickle_of_nested_def)

lemma store_nested:
  "dispatch (sample []) set_v_nested (module_state False []) = (Inr (), stored ''v'' nested)"
  by (simp add: dispatch_def set_v_nested_def set_pickled [OF _ _ _ decode_nested]
      sample_def nested_def pickle_of_nested_def pickle_of_None_def ack_command_ok_def
      bind_def return_def wire_defs module_state_def stored_def)





section \<open>Framing: what the length prefix counts\<close>

text \<open>
  C1. The claim: the 4-byte prefix written by \<^verbatim>\<open>send_response\<close> equals the number of
  octets of the UTF-8 payload that follow it. The code packs \<^verbatim>\<open>len(response)\<close>, the
  number of code points, before encoding. For a raw payload of one code point, U+00E9 (e with an acute
  accent), the prefix says 1 and two octets, C3 A9, follow.
\<close>

theorem send_response_prefix_counts_code_points:
  "send_response X (PStr [0xE9]) False (module_state False [])
   = (Inr (), (module_state False [])\<lparr>sent := [0, 0, 0, 1, 0xC3, 0xA9]\<rparr>)"
  by (simp add: send_response_def bind_def return_def raise_def lift_def struct_pack_L_def
      sendall_def encode_code_point_def module_state_def)

text \<open>
  C2. The claim: however the transport splits a well-formed frame into reads,
  \<^verbatim>\<open>receive_message\<close> accumulates exactly the 4 prefix octets, then the payload, and
  returns the payload. The first loop asks for \<^verbatim>\<open>recv(4)\<close> on every pass, whatever it
  already holds. For the frame 00 00 00 02 68 69 (the payload \<^verbatim>\<open>"hi"\<close>) arriving as one
  octet and then the other five, the second read returns four octets, the loop ends
  holding five, and \<^verbatim>\<open>struct.unpack\<close> raises; the payload is not returned.
\<close>

theorem receive_message_reads_past_the_prefix:
  "receive_message X False (module_state False [[0], [0, 0, 2, 0x68, 0x69]])
   = (Inl StructError, (module_state False [[0x69]]))"
  by (simp add: receive_message_def bind_def return_def raise_def lift_def struct_unpack_L_def
      recv_def module_state_def)

section \<open>Header inference\<close>

text \<open>
  C3 (amended). For a table with distinct column labels and a column of dtype
  \<^verbatim>\<open>object\<close> or \<^verbatim>\<open>bool\<close>, the header classifies the column NOMINAL if and only
  if the number of its distinct values, a missing value (NaN) counting as one of them,
  is strictly less than half the row count; the header then lists the distinct values
  other than NaN in order of first appearance. Otherwise the column is STRING.
\<close>

theorem textual_column_is_nominal_below_half:
  assumes "distinct (map col_name (columns frame))"
    and "i < length (columns frame)"
    and "c = columns frame ! i"
    and "col_dtype c = Dtype_object \<or> col_dtype c = Dtype_bool"
  shows "\<exists>attributes.
     instances_to_header_message frame_name frame
       = PDict [(py ''relation_name'', frame_name), (py ''attributes'', PList attributes)]
     \<and> length attributes = length (columns frame)
     \<and> attributes ! i = PDict
         (if 2 * card (set (col_values c)) < index_size frame
          then [(py ''name'', PStr (col_name c)), (py ''type'', PStr (py ''NOMINAL'')),
                (py ''values'',
                 PList (map cell_value (filter (\<lambda>v. v \<noteq> CNaN) (unique (col_values c)))))]
          else [(py ''name'', PStr (col_name c)), (py ''type'', PStr (py ''STRING''))])"
proof -
  have mem: "c \<in> set (columns frame)" using assms(2,3) by simp
  have "attribute_of frame (col_name c) =
         (if 2 * card (set (col_values c)) < index_size frame
          then [(py ''name'', PStr (col_name c)), (py ''type'', PStr (py ''NOMINAL'')),
                (py ''values'',
                 PList (map cell_value (filter (\<lambda>v. v \<noteq> CNaN) (unique (col_values c)))))]
          else [(py ''name'', PStr (col_name c)), (py ''type'', PStr (py ''STRING''))])"
    using assms(4) find_column [OF assms(1) mem]
    by (auto simp: attribute_of_def Let_def length_unique is_nan_iff)
  then show ?thesis using assms(2,3)
    by (simp add: instances_to_header_message_def)
qed

text \<open>An instance: seven rows, three distinct values, none missing.\<close>

theorem textual_column_is_nominal_below_half_witness:
  "distinct (map col_name (columns letters)) \<and> 0 < length (columns letters)
   \<and> col_dtype (columns letters ! 0) = Dtype_object
   \<and> (\<exists>attributes.
        instances_to_header_message (PStr (py ''letters'')) letters
          = PDict [(py ''relation_name'', PStr (py ''letters'')),
                   (py ''attributes'', PList attributes)]
        \<and> length attributes = 1
        \<and> attributes ! 0 = PDict
             [(py ''name'', PStr (py ''letter'')), (py ''type'', PStr (py ''NOMINAL'')),
              (py ''values'', PList [PStr (py ''a''), PStr (py ''b''), PStr (py ''c'')])])"
  using textual_column_is_nominal_below_half
    [of letters 0 "columns letters ! 0" "PStr (py ''letters'')"]
  by (simp add: letters_def cell_value_def)

text \<open>
  C3 as claimed counts only the distinct values that are not missing. A column of four
  rows holding \<^verbatim>\<open>a\<close>, NaN, \<^verbatim>\<open>a\<close>, \<^verbatim>\<open>a\<close> has one such value, and 1 is less than
  half of 4; \<^verbatim>\<open>unique()\<close> returns two values, NaN among them, and the column
  stays STRING.
\<close>

theorem missing_value_counts_as_distinct:
  "instances_to_header_message (PStr (py ''survey'')) survey
     = PDict [(py ''relation_name'', PStr (py ''survey'')),
              (py ''attributes'',
               PList [PDict [(py ''name'', PStr (py ''colour'')),
                             (py ''type'', PStr (py ''STRING''))]])]
   \<and> 2 * card (set (filter (\<lambda>v. v \<noteq> CNaN) (col_values (columns survey ! 0))))
       < index_size survey"
  by (simp add: instances_to_header_message_def attribute_of_def survey_def is_nan_iff)


section \<open>Instance egress on a missing table\<close>




section \<open>Variable exchange\<close>

text \<open>
  C5. The claim: a \<^verbatim>\<open>set_variable_value\<close> request with a \<^verbatim>\<open>variable_encoding\<close>
  field is answered by exactly one acknowledgement, \<^verbatim>\<open>ok\<close> for the opaque codec
  and \<^verbatim>\<open>error\<close> otherwise. \<^verbatim>\<open>receive_variable_value\<close> has no branch for an
  encoding other than \<^verbatim>\<open>'pickled'\<close>: for the encoding \<^verbatim>\<open>'json'\<close> the handler
  returns without sending anything and without changing the state.
\<close>

theorem set_variable_value_other_encoding_sends_nothing:
  "dispatch X set_x_as_json s = (Inr (), s)"
  by (simp add: dispatch_def receive_variable_value_def return_def set_x_as_json_def)

text \<open>
  C7 (amended). For a variable name that is not a key of the Environment,
  \<^verbatim>\<open>variable_is_set\<close> answers \<^verbatim>\<open>variable_exists = false\<close>; after a successful
  \<^verbatim>\<open>set_variable_value\<close> with the opaque codec that stored an object other than
  \<^verbatim>\<open>None\<close> under the name, it answers \<^verbatim>\<open>variable_exists = true\<close>.
\<close>

theorem variable_is_set_before_and_after_definition:
  assumes "map_of query (py ''command'') = Some (JStr (py ''variable_is_set''))"
    and "map_of query (py ''variable_name'') = Some (JStr name)"
    and "local_env s0 name = None"
    and "map_of message (py ''command'') = Some (JStr (py ''set_variable_value''))"
    and "map_of message (py ''variable_encoding'') = Some (JStr (py ''pickled''))"
    and "map_of message (py ''variable_name'') = Some (JStr name)"
    and "map_of message (py ''variable_value'') = Some pickled_var_value"
    and "base64_decode pickled_var_value = Inr pickled_bytes"
    and "pickle_loads X pickled_bytes = Inr object"
    and "object \<noteq> PNone"
    and "dispatch X message s = (Inr (), s')"
  shows "dispatch X query s0
         = send_response X
             (PDict [(py ''response'', PStr (py ''ok'')), (py ''variable_name'', PStr name),
                     (py ''variable_exists'', PBool False)])
             True s0
       \<and> dispatch X query s'
         = send_response X
             (PDict [(py ''response'', PStr (py ''ok'')), (py ''variable_name'', PStr name),
                     (py ''variable_exists'', PBool True)])
             True s'"
proof -
  have query: "dispatch X query t = send_variable_is_set X query t" for t
    using assms(1) by (simp add: dispatch_def)
  have "dispatch X message s = receive_variable_value X message s"
    using assms(4) by (simp add: dispatch_def)
  with assms(11) have "receive_variable_value X message s = (Inr (), s')" by simp
  from set_pickled_env [OF assms(5-9) this]
  have "local_env s' name = Some object" by simp
  with assms(2,3,10) show ?thesis
    by (simp add: query send_variable_is_set_def)
qed

text \<open>An instance: the nested value \<^verbatim>\<open>{'k': [1, 2]}\<close> stored under \<^verbatim>\<open>v\<close>.\<close>

theorem variable_is_set_before_and_after_definition_witness:
  "map_of is_v_set (py ''command'') = Some (JStr (py ''variable_is_set''))
   \<and> map_of is_v_set (py ''variable_name'') = Some (JStr (py ''v''))
   \<and> local_env (module_state False []) (py ''v'') = None
   \<and> map_of set_v_nested (py ''command'') = Some (JStr (py ''set_variable_value''))
   \<and> map_of set_v_nested (py ''variable_encoding'') = Some (JStr (py ''pickled''))
   \<and> map_of set_v_nested (py ''variable_name'') = Some (JStr (py ''v''))
   \<and> map_of set_v_nested (py ''variable_value'')
       = Some (JStr (py ''gASVEAAAAAAAAAB9lIwBa5RdlChLAUsCZXMu''))
   \<and> base64_decode (JStr (py ''gASVEAAAAAAAAAB9lIwBa5RdlChLAUsCZXMu'')) = Inr pickle_of_nested
   \<and> pickle_loads (sample []) pickle_of_nested = Inr nested
   \<and> nested \<noteq> PNone
   \<and> dispatch (sample []) set_v_nested (module_state False []) = (Inr (), stored ''v'' nested)
   \<and> dispatch (sample []) is_v_set (module_state False [])
       = send_response (sample [])
           (PDict [(py ''response'', PStr (py ''ok'')), (py ''variable_name'', PStr (py ''v'')),
                   (py ''variable_exists'', PBool False)])
           True (module_state False [])
   \<and> dispatch (sample []) is_v_set (stored ''v'' nested)
       = send_response (sample [])
           (PDict [(py ''response'', PStr (py ''ok'')), (py ''variable_name'', PStr (py ''v'')),
                   (py ''variable_exists'', PBool True)])
           True (stored ''v'' nested)"
proof -
  have q: "map_of is_v_set (py ''command'') = Some (JStr (py ''variable_is_set''))"
    "map_of is_v_set (py ''variable_name'') = Some (JStr (py ''v''))"
    by (simp_all add: is_v_set_def)
  have undefined: "local_env (module_state False []) (py ''v'') = None"
    by (simp add: module_state_def)
  have m: "map_of set_v_nested (py ''command'') = Some (JStr (py ''set_variable_value''))"
    "map_of set_v_nested (py ''variable_encoding'') = Some (JStr (py ''pickled''))"
    "map_of set_v_nested (py ''variable_name'') = Some (JStr (py ''v''))"
    "map_of set_v_nested (py ''variable_value'')
       = Some (JStr (py ''gASVEAAAAAAAAAB9lIwBa5RdlChLAUsCZXMu''))"
    by (simp_all add: set_v_nested_def)
  have loads: "pickle_loads (sample []) pickle_of_nested = Inr nested"
    by (simp add: sample_def pickle_of_nested_def pickle_of_None_def)
  have not_none: "nested \<noteq> PNone"
    by (simp add: nested_def)
  from variable_is_set_before_and_after_definition
    [OF q undefined m decode_nested loads not_none store_nested]
    q undefined m decode_nested loads not_none store_nested
  show ?thesis by blast
qed

text \<open>
  C7 as claimed holds for every value stored. \<^verbatim>\<open>get_variable\<close> uses \<^verbatim>\<open>None\<close> for
  "not defined": after the pickle of \<^verbatim>\<open>None\<close> has been stored under \<^verbatim>\<open>x\<close> and
  acknowledged, \<^verbatim>\<open>variable_is_set\<close> still answers false.
\<close>

theorem stored_None_is_reported_unset:
  \<open>dispatch (sample []) set_x_none (module_state False []) = (Inr (), stored ''x'' PNone)
   \<and> dispatch (sample []) is_x_set (stored ''x'' PNone)
       = (Inr (),
          (stored ''x'' PNone)\<lparr>sent := sent (stored ''x'' PNone) @ [0, 0, 0, 66] @
             wire ''{"response": "ok", "variable_name": "x", "variable_exists": false}''\<rparr>)\<close>
  by (simp add: dispatch_def set_x_none_def is_x_set_def receive_variable_value_def
      receive_pickled_variable_value_def set_variable_def send_variable_is_set_def
      get_variable_def base64_decode_def b64decode_def b64_index_def
      sample_def pickle_of_None_def ack_command_ok_def
      bind_def return_def wire_defs module_state_def stored_def)

text \<open>
  C8 (amended). For every object other than \<^verbatim>\<open>None\<close> that the object codec can
  store, \<^verbatim>\<open>set_variable_value\<close> with the base64 text of its pickle followed by
  \<^verbatim>\<open>get_variable_value\<close> with the opaque codec on the same name stores the object
  and answers with the same base64 text, which decodes to the same pickle and so to the
  same object.
\<close>

theorem pickled_value_round_trip:
  assumes "map_of message (py ''command'') = Some (JStr (py ''set_variable_value''))"
    and "map_of message (py ''variable_encoding'') = Some (JStr (py ''pickled''))"
    and "map_of message (py ''variable_name'') = Some (JStr name)"
    and "map_of message (py ''variable_value'') = Some (JStr carrier)"
    and "pickle_dumps X object = Inr pickled_bytes"
    and "base64_encode pickled_bytes = Inr carrier"
    and "pickle_loads X pickled_bytes = Inr object"
    and "object \<noteq> PNone"
    and "dispatch X message s = (Inr (), s')"
    and "map_of query (py ''command'') = Some (JStr (py ''get_variable_value''))"
    and "map_of query (py ''variable_name'') = Some (JStr name)"
    and "map_of query (py ''variable_encoding'') = Some (JStr (py ''pickled''))"
  shows "local_env s' name = Some object
       \<and> (\<exists>s''. dispatch X query s'
              = send_response X
                  (PDict [(py ''response'', PStr (py ''ok'')),
                          (py ''variable_name'', PStr name),
                          (py ''variable_encoding'', PStr (py ''pickled'')),
                          (py ''variable_value'', PStr carrier)])
                  True s'')
       \<and> base64_decode (JStr carrier) = Inr pickled_bytes"
proof -
  have decode: "base64_decode (JStr carrier) = Inr pickled_bytes"
    using assms(6) by (rule base64_decode_encode)
  have "dispatch X message s = receive_variable_value X message s"
    using assms(1) by (simp add: dispatch_def)
  with assms(9) have "receive_variable_value X message s = (Inr (), s')" by simp
  from set_pickled_env [OF assms(2-4) decode assms(7) this]
  have env: "local_env s' name = Some object" by simp
  have "dispatch X query s' = send_encoded_variable_value X query s'"
    using assms(10,12) by (simp add: dispatch_def send_variable_value_def)
  also note get_pickled [OF assms(11,12) env assms(8,5,6)]
  finally have run: "dispatch X query s'
    = bind (if equals_True (message_debug query)
            then print (py ''Sending pickled value for var '' @ name @ py ''\<newline>'')
            else return ())
        (\<lambda>_. send_response X
             (PDict [(py ''response'', PStr (py ''ok'')),
                     (py ''variable_name'', PStr name),
                     (py ''variable_encoding'', PStr (py ''pickled'')),
                     (py ''variable_value'', PStr carrier)])
             True) s'" .
  have "\<exists>s''. dispatch X query s'
              = send_response X
                  (PDict [(py ''response'', PStr (py ''ok'')),
                          (py ''variable_name'', PStr name),
                          (py ''variable_encoding'', PStr (py ''pickled'')),
                          (py ''variable_value'', PStr carrier)])
                  True s''"
  proof (cases "equals_True (message_debug query)")
    case True
    show ?thesis
      unfolding run by (simp only: True if_True bind_print) (rule exI, rule refl)
  next
    case False
    show ?thesis
      unfolding run by (simp only: False if_False bind_return) (rule exI, rule refl)
  qed
  with env decode show ?thesis by simp
qed

text \<open>An instance: the nested value \<^verbatim>\<open>{'k': [1, 2]}\<close>.\<close>

theorem pickled_value_round_trip_witness:
  "map_of set_v_nested (py ''command'') = Some (JStr (py ''set_variable_value''))
   \<and> map_of set_v_nested (py ''variable_encoding'') = Some (JStr (py ''pickled''))
   \<and> map_of set_v_nested (py ''variable_name'') = Some (JStr (py ''v''))
   \<and> map_of set_v_nested (py ''variable_value'')
       = Some (JStr (py ''gASVEAAAAAAAAAB9lIwBa5RdlChLAUsCZXMu''))
   \<and> pickle_dumps (sample []) nested = Inr pickle_of_nested
   \<and> base64_encode pickle_of_nested = Inr (py ''gASVEAAAAAAAAAB9lIwBa5RdlChLAUsCZXMu'')
   \<and> pickle_loads (sample []) pickle_of_nested = Inr nested
   \<and> nested \<noteq> PNone
   \<and> dispatch (sample []) set_v_nested (module_state False []) = (Inr (), stored ''v'' nested)
   \<and> map_of get_v (py ''command'') = Some (JStr (py ''get_variable_value''))
   \<and> map_of get_v (py ''variable_name'') = Some (JStr (py ''v''))
   \<and> map_of get_v (py ''variable_encoding'') = Some (JStr (py ''pickled''))
   \<and> local_env (stored ''v'' nested) (py ''v'') = Some nested
   \<and> (\<exists>s''. dispatch (sample []) get_v (stored ''v'' nested)
          = send_response (sample [])
              (PDict [(py ''response'', PStr (py ''ok'')),
                      (py ''variable_name'', PStr (py ''v'')),
                      (py ''variable_encoding'', PStr (py ''pickled'')),
                      (py ''variable_value'',
                       PStr (py ''gASVEAAAAAAAAAB9lIwBa5RdlChLAUsCZXMu''))])
              True s'')
   \<and> base64_decode (JStr (py ''gASVEAAAAAAAAAB9lIwBa5RdlChLAUsCZXMu'')) = Inr pickle_of_nested"
proof -
  have m: "map_of set_v_nested (py ''command'') = Some (JStr (py ''set_variable_value''))"
    "map_of set_v_nested (py ''variable_encoding'') = Some (JStr (py ''pickled''))"
    "map_of set_v_nested (py ''variable_name'') = Some (JStr (py ''v''))"
    "map_of set_v_nested (py ''variable_value'')
       = Some (JStr (py ''gASVEAAAAAAAAAB9lIwBa5RdlChLAUsCZXMu''))"
    by (simp_all add: set_v_nested_def)
  have dumps: "pickle_dumps (sample []) nested = Inr pickle_of_nested"
    by (simp add: sample_def nested_def)
  have loads: "pickle_loads (sample []) pickle_of_nested = Inr nested"
    by (simp add: sample_def pickle_of_nested_def pickle_of_None_def)
  have not_none: "nested \<noteq> PNone"
    by (simp add: nested_def)
  have q: "map_of get_v (py ''command'') = Some (JStr (py ''get_variable_value''))"
    "map_of get_v (py ''variable_name'') = Some (JStr (py ''v''))"
    "map_of get_v (py ''variable_encoding'') = Some (JStr (py ''pickled''))"
    by (simp_all add: get_v_def)
  from pickled_value_round_trip
    [OF m dumps encode_nested loads not_none store_nested q]
    m dumps encode_nested loads not_none store_nested q
  show ?thesis by blast
qed

text \<open>
  C8 as claimed holds for every value the codec can store. The codec stores
  \<^verbatim>\<open>None\<close>, and \<^verbatim>\<open>set_variable_value\<close> acknowledges it, but
  \<^verbatim>\<open>get_variable_value\<close> then answers with an error: the variable "does not exist".
\<close>

theorem stored_None_cannot_be_read_back:
  \<open>dispatch (sample []) set_x_none (module_state False []) = (Inr (), stored ''x'' PNone)
   \<and> pickle_dumps (sample []) PNone = Inr pickle_of_None
   \<and> base64_encode pickle_of_None = Inr (py ''gAROLg=='')
   \<and> pickle_loads (sample []) pickle_of_None = Inr PNone
   \<and> dispatch (sample []) get_x (stored ''x'' PNone)
       = (Inr (),
          (stored ''x'' PNone)\<lparr>sent := sent (stored ''x'' PNone) @ [0, 0, 0, 59] @
             wire ''{"response": "error", "error_message": "x does not exist!"}''\<rparr>)\<close>
  by (simp add: dispatch_def set_x_none_def get_x_def receive_variable_value_def
      receive_pickled_variable_value_def set_variable_def send_variable_value_def
      send_encoded_variable_value_def text_of_def ack_command_err_def
      get_variable_def base64_decode_def b64decode_def b64_index_def
      base64_encode_def b64_char_def prepend_def
      sample_def pickle_of_None_def ack_command_ok_def
      bind_def return_def wire_defs module_state_def stored_def)

section \<open>Script execution\<close>

text \<open>
  C6 (amended). For an \<^verbatim>\<open>execute_script\<close> request whose script is a text and whose
  execution returns or raises an exception of class \<^verbatim>\<open>Exception\<close>, the handler
  puts nothing on the wire before it sends the \<^verbatim>\<open>ok\<close> response carrying
  \<^verbatim>\<open>script_out\<close> and \<^verbatim>\<open>script_error\<close>. When that response can be serialized
  and encoded, the wire grows by exactly one frame, the length prefix and the octets of
  that response, and the handler returns normally; in every case the wire grows by
  nothing, by that prefix alone, or by that one frame, so never by an error response.
  \<^verbatim>\<open>script_error\<close> is not empty when the script raised, and once the handler has
  returned the loop goes on to the next message.
\<close>

theorem script_exception_is_reported_in_ok_response:
  assumes "receive_message X True s0 = (Inr (JDict message), s)"
    and "map_of message (py ''command'') = Some (JStr (py ''execute_script''))"
    and "map_of message (py ''script'') = Some (JStr source)"
    and "run = exec_script X (JStr source) (global_env s) (local_env s)"
    and "ending run \<noteq> RaisedSystemExit"
    and "installed s"
    and "response = PDict [(py ''response'', PStr (py ''ok'')),
                           (py ''script_out'', PStr (captured_out run)),
                           (py ''script_error'', PStr (captured_err run))]"
  shows "(\<exists>s'. sent s' = sent s \<and> inbox s' = inbox s
              \<and> dispatch X message s = send_response X response True s')
         \<and> (\<forall>document prefix encoded.
               json_dumps X response = Inr document
               \<longrightarrow> struct_pack_L (length document) = Inr prefix
               \<longrightarrow> str_encode document = Inr encoded
               \<longrightarrow> (\<exists>s2. dispatch X message s = (Inr (), s2)
                         \<and> sent s2 = sent s @ prefix @ encoded))
         \<and> (\<forall>r s2. dispatch X message s = (r, s2)
               \<longrightarrow> sent s2 = sent s
                   \<or> (\<exists>document prefix. json_dumps X response = Inr document
                         \<and> struct_pack_L (length document) = Inr prefix
                         \<and> (sent s2 = sent s @ prefix
                              \<or> (\<exists>encoded. str_encode document = Inr encoded
                                    \<and> sent s2 = sent s @ prefix @ encoded))))
         \<and> (ending run \<noteq> Completed \<longrightarrow> captured_err run \<noteq> [])
         \<and> (\<forall>s2. dispatch X message s = (Inr (), s2)
                \<longrightarrow> runServer_loop X s0 = runServer_loop X s2)"
proof -
  let ?s' = "s\<lparr>global_env := globals_after run, local_env := locals_after run,
                buffers := (buffers s)
                  (allocated s := captured_out run, Suc (allocated s) := captured_err run,
                   sys_stdout s := buffers s (sys_stdout s) @
                     (if truthy (message_debug message)
                      then py ''Executing script...\<newline>\<newline>'' @ source @ py ''\<newline>''
                      else [])),
                allocated := Suc (Suc (allocated s))\<rparr>"
  have "dispatch X message s = execute_script X message s"
    using assms(2) by (simp add: dispatch_def)
  with execute_script_run [OF assms(3-6)]
  have run: "dispatch X message s = send_response X response True ?s'"
    unfolding assms(7) by simp
  have same: "sent ?s' = sent s" "inbox ?s' = inbox s" by simp_all
  have first: "\<exists>s'. sent s' = sent s \<and> inbox s' = inbox s
              \<and> dispatch X message s = send_response X response True s'"
    using run same by blast
  have second: "\<exists>s2. dispatch X message s = (Inr (), s2) \<and> sent s2 = sent s @ prefix @ encoded"
    if "json_dumps X response = Inr document" "struct_pack_L (length document) = Inr prefix"
      "str_encode document = Inr encoded" for document prefix encoded
    unfolding run using that
    by (simp add: send_response_def bind_def lift_def return_def sendall_def)
  have third: "sent s2 = sent s
                   \<or> (\<exists>document prefix. json_dumps X response = Inr document
                         \<and> struct_pack_L (length document) = Inr prefix
                         \<and> (sent s2 = sent s @ prefix
                              \<or> (\<exists>encoded. str_encode document = Inr encoded
                                    \<and> sent s2 = sent s @ prefix @ encoded)))"
    if "dispatch X message s = (r, s2)" for r s2
    using that unfolding run
    by (auto simp: send_response_def bind_def lift_def return_def raise_def sendall_def
        split: sum.splits)
  have fourth: "captured_err run \<noteq> []" if "ending run \<noteq> Completed"
    using that assms(5)
    by (cases "ending run") (simp_all add: captured_err_def traceback_not_empty)
  have fifth: "runServer_loop X s0 = runServer_loop X s2"
    if "dispatch X message s = (Inr (), s2)" for s2
    using assms(1) that by (rule loop_step)
  from first second third fourth fifth show ?thesis by blast
qed

text \<open>
  An instance: the script \<^verbatim>\<open>1/0\<close>, received from the transport. The wire holds one
  frame of 164 octets, the \<^verbatim>\<open>ok\<close> response with the trace in
  \<^verbatim>\<open>script_error\<close>.
\<close>

theorem script_exception_is_reported_in_ok_response_witness:
  \<open>receive_message (sample [run_division]) True
     (module_state False
        [[0, 0, 0, 46] @ wire ''{"command": "execute_script", "script": "1/0"}''])
   = (Inr (JDict run_division), module_state False [])
   \<and> map_of run_division (py ''command'') = Some (JStr (py ''execute_script''))
   \<and> map_of run_division (py ''script'') = Some (JStr (py ''1/0''))
   \<and> ending (exec_script (sample [run_division]) (JStr (py ''1/0'')) Map.empty Map.empty)
       = RaisedException (py ''ZeroDivisionError: division by zero\<newline>'')
   \<and> installed (module_state False [])
   \<and> (\<exists>s2. dispatch (sample [run_division]) run_division (module_state False [])
            = (Inr (), s2)
          \<and> sent s2 = [0, 0, 0, 164] @
               wire ''{"response": "ok", "script_out": "Got an exception executing script''
               @ [0x5C, 0x6E] @
               wire ''", "script_error": "Traceback (most recent call last):''
               @ [0x5C, 0x6E] @ wire ''ZeroDivisionError: division by zero''
               @ [0x5C, 0x6E] @ wire ''"}'')\<close>
proof -
  let ?X = "sample [run_division]"
  let ?run = "exec_script ?X (JStr (py ''1/0'')) (global_env (module_state False []))
                (local_env (module_state False []))"
  let ?response = "PDict [(py ''response'', PStr (py ''ok'')),
                          (py ''script_out'', PStr (captured_out ?run)),
                          (py ''script_error'', PStr (captured_err ?run))]"
  let ?document = "py ''{'' @ quoted (py ''response'') @ py '': '' @ quoted (py ''ok'') @ py '', ''
     @ quoted (py ''script_out'') @ py '': ''
     @ quoted (py ''Got an exception executing script\<newline>'') @ py '', ''
     @ quoted (py ''script_error'') @ py '': ''
     @ quoted (py ''Traceback (most recent call last):\<newline>ZeroDivisionError: division by zero\<newline>'')
     @ py ''}''"
  have command: "map_of run_division (py ''command'') = Some (JStr (py ''execute_script''))"
    and script: "map_of run_division (py ''script'') = Some (JStr (py ''1/0''))"
    by (simp_all add: run_division_def)
  have ended: "ending ?run \<noteq> RaisedSystemExit"
    by (simp add: sample_def no_effect_def)
  have out: "captured_out ?run = py ''Got an exception executing script\<newline>''"
    and err: "captured_err ?run
              = py ''Traceback (most recent call last):\<newline>ZeroDivisionError: division by zero\<newline>''"
    by (simp_all add: captured_out_def captured_err_def traceback_print_exc_def sample_def
        no_effect_def)
  have document: "json_dumps ?X ?response = Inr ?document"
    unfolding out err by (simp add: sample_def py_def quoted_def escape_code_point_def)
  have "length ?document = 164"
    by (simp add: py_def quoted_def escape_code_point_def)
  then have prefix: "struct_pack_L (length ?document) = Inr [0, 0, 0, 164]"
    by (simp add: struct_pack_L_def)
  have ascii: "list_all (\<lambda>c. c < 0x80) ?document"
    by (simp add: py_def quoted_def escape_code_point_def)
  have encoded: "str_encode ?document = Inr (map of_nat ?document)"
    using ascii by (rule str_encode_ascii)
  from script_exception_is_reported_in_ok_response
    [OF receive_run_division command script refl ended installed_module_state refl]
  have "\<exists>s2. dispatch ?X run_division (module_state False []) = (Inr (), s2)
          \<and> sent s2 = sent (module_state False []) @ [0, 0, 0, 164] @ map of_nat ?document"
    using document prefix encoded by blast
  then show ?thesis
    using receive_run_division command script installed_module_state
    by (simp add: sample_def no_effect_def module_state_def py_def quoted_def
        escape_code_point_def wire_def)
qed

text \<open>
  C6 as claimed covers any failure raised while the script runs. \<^verbatim>\<open>except Exception\<close>
  does not catch \<^verbatim>\<open>SystemExit\<close>: a script that raises it ends the handler, and the
  worker, without any response.
\<close>

theorem script_raising_SystemExit_gets_no_response:
  "fst (dispatch (sample [run_exit]) run_exit (module_state False [])) = Inl SystemExit
   \<and> sent (snd (dispatch (sample [run_exit]) run_exit (module_state False []))) = []"
  by (simp add: dispatch_def execute_script_def run_exit_def message_debug_def truthy_def
      action_defs sample_def no_effect_def module_state_def Let_def)

text \<open>
  C10 (amended). For an \<^verbatim>\<open>execute_script\<close> command (script a text, ending as in C6)
  the script's output goes to the two new buffers whose contents the response carries,
  and afterwards the capture buffers installed before are installed again. Their
  contents are what they were, except that a request with a true \<^verbatim>\<open>debug\<close> field
  has added the handler's own line \<^verbatim>\<open>Executing script...\<close> and the script's source
  to the captured standard output. A following \<^verbatim>\<open>get_debug_buffer\<close> drains exactly
  that: nothing the script printed.
\<close>

theorem execute_script_restores_capture_buffers:
  assumes "map_of message (py ''script'') = Some (JStr source)"
    and "run = exec_script X (JStr source) (global_env s) (local_env s)"
    and "ending run \<noteq> RaisedSystemExit"
    and "installed s"
    and "execute_script X message s = (r, s')"
    and "note = (if truthy (message_debug message)
                 then py ''Executing script...\<newline>\<newline>'' @ source @ py ''\<newline>''
                 else [])"
  shows "sys_stdout s' = sys_stdout s \<and> sys_stderr s' = sys_stderr s
         \<and> buffers s' (sys_stdout s') = buffers s (sys_stdout s) @ note
         \<and> buffers s' (sys_stderr s') = buffers s (sys_stderr s)
         \<and> (\<exists>s1. execute_script X message s
                   = send_response X
                       (PDict [(py ''response'', PStr (py ''ok'')),
                               (py ''script_out'', PStr (captured_out run)),
                               (py ''script_error'', PStr (captured_err run))])
                       True s1)
         \<and> (\<exists>s2. send_debug_buffer X s'
                   = send_response X
                       (PDict [(py ''response'', PStr (py ''ok'')),
                               (py ''std_out'', PStr (buffers s (sys_stdout s) @ note)),
                               (py ''std_err'', PStr (buffers s (sys_stderr s)))])
                       True s2)"
proof -
  note run = execute_script_run [OF assms(1-4)]
  from assms(5) have eq: "s' = (s\<lparr>global_env := globals_after run, local_env := locals_after run,
                buffers := (buffers s)
                  (allocated s := captured_out run, Suc (allocated s) := captured_err run,
                   sys_stdout s := buffers s (sys_stdout s) @ note),
                allocated := Suc (Suc (allocated s))\<rparr>)\<lparr>sent := sent s'\<rparr>"
    unfolding run assms(6) by (rule send_response_state)
  have fields: "sys_stdout s' = sys_stdout s" "sys_stderr s' = sys_stderr s"
    "buffers s' = (buffers s)
                  (allocated s := captured_out run, Suc (allocated s) := captured_err run,
                   sys_stdout s := buffers s (sys_stdout s) @ note)"
    using arg_cong [OF eq, of sys_stdout] arg_cong [OF eq, of sys_stderr]
      arg_cong [OF eq, of buffers]
    by simp_all
  have out: "buffers s' (sys_stdout s') = buffers s (sys_stdout s) @ note"
    and err: "buffers s' (sys_stderr s') = buffers s (sys_stderr s)"
    using assms(4) by (auto simp: fields installed_def)
  have drain: "\<exists>s2. send_debug_buffer X s'
                   = send_response X
                       (PDict [(py ''response'', PStr (py ''ok'')),
                               (py ''std_out'', PStr (buffers s' (sys_stdout s'))),
                               (py ''std_err'', PStr (buffers s' (sys_stderr s')))])
                       True s2"
    by (simp add: send_debug_buffer_def action_defs Let_def) (rule exI, rule refl)
  from run out err drain fields(1,2) show ?thesis by auto
qed

text \<open>An instance: the script \<^verbatim>\<open>1/0\<close> without the debug flag.\<close>

theorem execute_script_restores_capture_buffers_witness:
  "map_of run_division (py ''script'') = Some (JStr (py ''1/0''))
   \<and> ending (exec_script (sample []) (JStr (py ''1/0''))
                (global_env (module_state False [])) (local_env (module_state False [])))
       \<noteq> RaisedSystemExit
   \<and> installed (module_state False [])
   \<and> sys_stdout after_division = sys_stdout (module_state False [])
   \<and> sys_stderr after_division = sys_stderr (module_state False [])
   \<and> buffers after_division (sys_stdout after_division)
       = buffers (module_state False []) (sys_stdout (module_state False []))
   \<and> buffers after_division (sys_stderr after_division)
       = buffers (module_state False []) (sys_stderr (module_state False []))"
proof -
  let ?X = "sample []"
  let ?s = "module_state False []"
  have script: "map_of run_division (py ''script'') = Some (JStr (py ''1/0''))"
    by (simp add: run_division_def)
  have ended: "ending (exec_script ?X (JStr (py ''1/0'')) (global_env ?s) (local_env ?s))
               \<noteq> RaisedSystemExit"
    by (simp add: sample_def no_effect_def)
  have quiet: "[] = (if truthy (message_debug run_division)
                    then py ''Executing script...\<newline>\<newline>'' @ py ''1/0'' @ py ''\<newline>''
                    else [])"
    by (simp add: message_debug_def run_division_def truthy_def)
  have run: "execute_script ?X run_division ?s
             = (fst (execute_script ?X run_division ?s), after_division)"
    by (simp add: after_division_def)
  from execute_script_restores_capture_buffers
    [OF script refl ended installed_module_state run quiet]
  have out: "sys_stdout after_division = sys_stdout ?s"
    and err: "sys_stderr after_division = sys_stderr ?s"
    and out_text: "buffers after_division (sys_stdout after_division)
                   = buffers ?s (sys_stdout ?s) @ []"
    and err_text: "buffers after_division (sys_stderr after_division)
                   = buffers ?s (sys_stderr ?s)"
    by blast+
  from out_text have "buffers after_division (sys_stdout after_division)
                      = buffers ?s (sys_stdout ?s)"
    by (simp only: append_Nil2)
  with script ended installed_module_state [of False "[]"] out err err_text
  show ?thesis by blast
qed

text \<open>
  C10 as claimed has the capture buffers unchanged after every command. With the debug
  flag set, the captured standard output, empty before, holds the handler's line and the
  source of the script afterwards.
\<close>

theorem debug_flag_writes_to_capture_buffer:
  "fst (execute_script (sample []) run_print_debug (module_state False [])) = Inr ()
   \<and> sys_stdout (snd (execute_script (sample []) run_print_debug (module_state False [])))
       = sys_stdout (module_state False [])
   \<and> buffers (module_state False []) (sys_stdout (module_state False [])) = []
   \<and> buffers (snd (execute_script (sample []) run_print_debug (module_state False [])))
        (sys_stdout (module_state False []))
       = py ''Executing script...\<newline>\<newline>print(1)\<newline>''"
  by (simp add: execute_script_def run_print_debug_def message_debug_def truthy_def text_of_def
      action_defs sample_def no_effect_def module_state_def Let_def wire_defs)

section \<open>Messages without a command\<close>

text \<open>
  C9. When a received message has no \<^verbatim>\<open>command\<close> field, the dispatcher sends
  nothing, leaves both environments as they are, and the loop goes on to wait for the
  next message.
\<close>

theorem message_without_command_is_ignored:
  assumes "receive_message X True s = (Inr (JDict message), s1)"
    and "map_of message (py ''command'') = None"
  shows "\<exists>s2. dispatch X message s1 = (Inr (), s2) \<and> sent s2 = sent s1
           \<and> local_env s2 = local_env s1 \<and> global_env s2 = global_env s1
           \<and> runServer_loop X s = runServer_loop X s2"
proof -
  let ?s2 = "if global_startup_debug s1
             then snd (print (py ''message did not contain a command field!'') s1) else s1"
  have d: "dispatch X message s1 = (Inr (), ?s2)"
    using assms(2) by (simp add: dispatch_def return_def print_def write_to_def)
  have same: "sent ?s2 = sent s1" "local_env ?s2 = local_env s1" "global_env ?s2 = global_env s1"
    by (simp_all add: print_def write_to_def)
  from loop_step [OF assms(1) d] d same show ?thesis by blast
qed

text \<open>An instance: the message \<^verbatim>\<open>{"debug": true}\<close>, received from the transport.\<close>

theorem message_without_command_is_ignored_witness:
  \<open>receive_message (sample [only_debug]) True
     (module_state True [[0, 0, 0, 15] @ wire ''{"debug": true}''])
   = (Inr (JDict only_debug), module_state True [])
   \<and> map_of only_debug (py ''command'') = None
   \<and> (\<exists>s2. dispatch (sample [only_debug]) only_debug (module_state True []) = (Inr (), s2)
          \<and> sent s2 = sent (module_state True [])
          \<and> local_env s2 = local_env (module_state True [])
          \<and> global_env s2 = global_env (module_state True [])
          \<and> runServer_loop (sample [only_debug])
                (module_state True [[0, 0, 0, 15] @ wire ''{"debug": true}''])
              = runServer_loop (sample [only_debug]) s2)\<close>
proof -
  have none: "map_of only_debug (py ''command'') = None"
    by (simp add: only_debug_def)
  from message_without_command_is_ignored [OF receive_only_debug none] receive_only_debug none
  show ?thesis by simp
qed

end
